theory Spec2Isabelle
  imports Complex_Main
begin

section \<open>JavaScript strings\<close>

text \<open>
  The infrastructure route (\<^verbatim>\<open>POST /api/infrastructure\<close>) works on JavaScript strings.
  A string is modelled as a list of 8-bit characters, read as the code units 0..255
  (Latin-1). On that range \<^verbatim>\<open>toLowerCase\<close> moves A..Z and the accented capitals
  0xC0..0xDE (without the multiplication sign 0xD7) up by 32, which sets bit 5, and
  \<^verbatim>\<open>trim\<close> removes TAB, LF, VT, FF, CR, space and the no-break space 0xA0.
\<close>

definition isUpperChar :: "char \<Rightarrow> bool" where
  "isUpperChar c =
     (let n = (of_char c :: nat)
      in (65 \<le> n \<and> n \<le> 90) \<or> (192 \<le> n \<and> n \<le> 222 \<and> n \<noteq> 215))"

fun toLowerChar :: "char \<Rightarrow> char" where
  "toLowerChar (Char b0 b1 b2 b3 b4 b5 b6 b7) =
     (if isUpperChar (Char b0 b1 b2 b3 b4 b5 b6 b7)
      then Char b0 b1 b2 b3 b4 True b6 b7
      else Char b0 b1 b2 b3 b4 b5 b6 b7)"

definition toLowerCase :: "string \<Rightarrow> string" where
  "toLowerCase s = map toLowerChar s"

definition isWhitespace :: "char \<Rightarrow> bool" where
  "isWhitespace c =
     (let n = (of_char c :: nat)
      in (9 \<le> n \<and> n \<le> 13) \<or> n = 32 \<or> n = 160)"

definition trim :: "string \<Rightarrow> string" where
  "trim s = rev (dropWhile isWhitespace (rev (dropWhile isWhitespace s)))"

definition startsWith :: "string \<Rightarrow> string \<Rightarrow> bool" where
  "startsWith s p = (take (length p) s = p)"

text \<open>\<^verbatim>\<open>s.includes(sub)\<close>: \<open>sub\<close> occurs in \<open>s\<close> as a contiguous substring.\<close>

fun str_includes :: "string \<Rightarrow> string \<Rightarrow> bool" where
  "str_includes [] sub = (sub = [])"
| "str_includes (c # cs) sub = (startsWith (c # cs) sub \<or> str_includes cs sub)"

text \<open>\<^verbatim>\<open>s.indexOf(ch)\<close>: \<open>None\<close> stands for the result \<^verbatim>\<open>-1\<close>.\<close>

fun indexOf :: "string \<Rightarrow> char \<Rightarrow> nat option" where
  "indexOf [] ch = None"
| "indexOf (c # cs) ch =
     (if c = ch then Some 0
      else (case indexOf cs ch of None \<Rightarrow> None | Some i \<Rightarrow> Some (Suc i)))"

text \<open>\<^verbatim>\<open>s.split(sep)\<close> for a one-character separator; the result is never empty.\<close>

fun splitOn :: "char \<Rightarrow> string \<Rightarrow> string list" where
  "splitOn sep [] = [[]]"
| "splitOn sep (c # cs) =
     (if c = sep then [] # splitOn sep cs
      else (case splitOn sep cs of
              [] \<Rightarrow> [[c]]
            | h # t \<Rightarrow> (c # h) # t))"

text \<open>\<^verbatim>\<open>xs.join(sep)\<close>.\<close>

fun join :: "string \<Rightarrow> string list \<Rightarrow> string" where
  "join sep [] = []"
| "join sep [x] = x"
| "join sep (x # y # ys) = x @ sep @ join sep (y # ys)"

text \<open>Template literals print an integer in decimal.\<close>

fun show_nat :: "nat \<Rightarrow> string" where
  "show_nat n =
     (if n < 10 then [''0123456789'' ! n]
      else show_nat (n div 10) @ [''0123456789'' ! (n mod 10)])"

declare show_nat.simps [simp del]

definition show_int :: "int \<Rightarrow> string" where
  "show_int i = (if i < 0 then ''-'' @ show_nat (nat (- i)) else show_nat (nat i))"

text \<open>
  Truthiness of an optional property: \<^verbatim>\<open>undefined\<close> and the empty string are falsy,
  \<^verbatim>\<open>undefined\<close> and \<^verbatim>\<open>false\<close> are falsy for a boolean, and every array or object
  is truthy.
\<close>

definition truthy :: "string option \<Rightarrow> bool" where
  "truthy v = (case v of None \<Rightarrow> False | Some s \<Rightarrow> s \<noteq> [])"

definition truthy_bool :: "bool option \<Rightarrow> bool" where
  "truthy_bool v = (case v of None \<Rightarrow> False | Some b \<Rightarrow> b)"

definition truthy_num :: "real option \<Rightarrow> bool" where
  "truthy_num v = (case v of None \<Rightarrow> False | Some x \<Rightarrow> x \<noteq> 0)"

text \<open>A template literal prints an absent property as \<^verbatim>\<open>undefined\<close>.\<close>

definition interpolate :: "string option \<Rightarrow> string" where
  "interpolate v = (case v of None \<Rightarrow> ''undefined'' | Some s \<Rightarrow> s)"

section \<open>Domain normalisation\<close>

text \<open>
  \<^verbatim>\<open>domain.replace(/^https?:\/\//, "").replace(/^www\./, "").split("/")[0].toLowerCase()\<close>.
  Both regular expressions are anchored at the start and have no \<^verbatim>\<open>i\<close> flag, so they
  match lower-case text only; each \<^verbatim>\<open>replace\<close> removes at most one match.
\<close>

definition stripScheme :: "string \<Rightarrow> string" where
  "stripScheme s =
     (if startsWith s ''https://'' then drop 8 s
      else if startsWith s ''http://'' then drop 7 s
      else s)"

definition stripWww :: "string \<Rightarrow> string" where
  "stripWww s = (if startsWith s ''www.'' then drop 4 s else s)"

definition firstSegment :: "string \<Rightarrow> string" where
  "firstSegment s = (case splitOn (CHR ''/'') s of [] \<Rightarrow> [] | h # t \<Rightarrow> h)"

definition cleanDomain :: "string \<Rightarrow> string" where
  "cleanDomain domain = toLowerCase (firstSegment (stripWww (stripScheme domain)))"

section \<open>The WHOIS response parser\<close>

text \<open>
  \<^verbatim>\<open>parseWhoisResponse\<close> fills an object \<^verbatim>\<open>result\<close> that starts empty. The record
  below has one optional field for every property the parser can assign; \<open>None\<close> is a
  property that was never assigned. The object becomes the \<^verbatim>\<open>domain_registration\<close>
  section of the result unchanged.
\<close>

record whois_info =
  domain_name :: "string option"
  registry_domain_id :: "string option"
  registrar_whois_server :: "string option"
  registrar_url :: "string option"
  registrar :: "string option"
  registrar_abuse_email :: "string option"
  registrar_abuse_phone :: "string option"
  reseller_name :: "string option"
  creation_date :: "string option"
  expiration_date :: "string option"
  updated_date :: "string option"
  last_modified :: "string option"
  registrant_name :: "string option"
  registrant_id :: "string option"
  registrant_organization :: "string option"
  registrant_country :: "string option"
  registrant_email :: "string option"
  registrant_phone :: "string option"
  admin_name :: "string option"
  admin_id :: "string option"
  admin_email :: "string option"
  tech_name :: "string option"
  tech_id :: "string option"
  tech_email :: "string option"
  billing_name :: "string option"
  billing_id :: "string option"
  nameservers :: "string list option"
  status :: "string list option"
  status_reason :: "string option"
  dnssec :: "string option"
  eligibility_type :: "string option"

definition whois_empty :: whois_info where
  "whois_empty =
     \<lparr>domain_name = None,
      registry_domain_id = None,
      registrar_whois_server = None,
      registrar_url = None,
      registrar = None,
      registrar_abuse_email = None,
      registrar_abuse_phone = None,
      reseller_name = None,
      creation_date = None,
      expiration_date = None,
      updated_date = None,
      last_modified = None,
      registrant_name = None,
      registrant_id = None,
      registrant_organization = None,
      registrant_country = None,
      registrant_email = None,
      registrant_phone = None,
      admin_name = None,
      admin_id = None,
      admin_email = None,
      tech_name = None,
      tech_id = None,
      tech_email = None,
      billing_name = None,
      billing_id = None,
      nameservers = None,
      status = None,
      status_reason = None,
      dnssec = None,
      eligibility_type = None\<rparr>"

text \<open>\<^verbatim>\<open>if (!result.xs) result.xs = []\<close> before a \<^verbatim>\<open>push\<close>.\<close>

definition list_or_empty :: "string list option \<Rightarrow> string list" where
  "list_or_empty v = (case v of None \<Rightarrow> [] | Some xs \<Rightarrow> xs)"

text \<open>
  The body of the loop is a sequence of \<^verbatim>\<open>if (condition) assignment;\<close> statements,
  none with an \<^verbatim>\<open>else\<close>. \<open>whoisRules\<close> lists them in the order of the source, each as
  its condition on the lower-cased key and its assignment; \<open>applyRules\<close> runs them one
  after the other.
\<close>

definition whoisRules :: "string \<Rightarrow> string \<Rightarrow> (bool \<times> (whois_info \<Rightarrow> whois_info)) list" where
  "whoisRules key v =
     [(str_includes key ''domain name'',
         \<lambda>r. r\<lparr>domain_name := Some v\<rparr>),
      (str_includes key ''registry domain id'',
         \<lambda>r. r\<lparr>registry_domain_id := Some v\<rparr>),
      (str_includes key ''registrar whois server'',
         \<lambda>r. r\<lparr>registrar_whois_server := Some v\<rparr>),
      (str_includes key ''registrar url'' \<or> key = ''registrar url'',
         \<lambda>r. r\<lparr>registrar_url := Some v\<rparr>),
      (key = ''registrar'' \<or> (str_includes key ''registrar'' \<and> str_includes key ''name''),
         \<lambda>r. r\<lparr>registrar := Some v\<rparr>),
      (str_includes key ''registrar abuse contact email'',
         \<lambda>r. r\<lparr>registrar_abuse_email := Some v\<rparr>),
      (str_includes key ''registrar abuse contact phone'',
         \<lambda>r. r\<lparr>registrar_abuse_phone := Some v\<rparr>),
      (str_includes key ''reseller'',
         \<lambda>r. r\<lparr>reseller_name := Some v\<rparr>),
      (str_includes key ''creation date'' \<or> str_includes key ''created'',
         \<lambda>r. r\<lparr>creation_date := Some v\<rparr>),
      (str_includes key ''expir'' \<and> (str_includes key ''date'' \<or> str_includes key ''expir''),
         \<lambda>r. r\<lparr>expiration_date := Some v\<rparr>),
      (str_includes key ''updated'' \<and> str_includes key ''date'',
         \<lambda>r. r\<lparr>updated_date := Some v\<rparr>),
      (str_includes key ''last modified'',
         \<lambda>r. r\<lparr>last_modified := Some v\<rparr>),
      (str_includes key ''registrant'' \<and> str_includes key ''name'',
         \<lambda>r. r\<lparr>registrant_name := Some v\<rparr>),
      (str_includes key ''registrant'' \<and> str_includes key ''id'',
         \<lambda>r. r\<lparr>registrant_id := Some v\<rparr>),
      (str_includes key ''registrant'' \<and> str_includes key ''organization'',
         \<lambda>r. r\<lparr>registrant_organization := Some v\<rparr>),
      (str_includes key ''registrant'' \<and> str_includes key ''country'',
         \<lambda>r. r\<lparr>registrant_country := Some v\<rparr>),
      (str_includes key ''registrant'' \<and> str_includes key ''email'',
         \<lambda>r. r\<lparr>registrant_email := Some v\<rparr>),
      (str_includes key ''registrant'' \<and> str_includes key ''phone'',
         \<lambda>r. r\<lparr>registrant_phone := Some v\<rparr>),
      (str_includes key ''admin'' \<and> str_includes key ''name'',
         \<lambda>r. r\<lparr>admin_name := Some v\<rparr>),
      (str_includes key ''admin'' \<and> str_includes key ''id'',
         \<lambda>r. r\<lparr>admin_id := Some v\<rparr>),
      (str_includes key ''admin'' \<and> str_includes key ''email'',
         \<lambda>r. r\<lparr>admin_email := Some v\<rparr>),
      (str_includes key ''tech'' \<and> str_includes key ''name'',
         \<lambda>r. r\<lparr>tech_name := Some v\<rparr>),
      (str_includes key ''tech'' \<and> str_includes key ''id'',
         \<lambda>r. r\<lparr>tech_id := Some v\<rparr>),
      (str_includes key ''tech'' \<and> str_includes key ''email'',
         \<lambda>r. r\<lparr>tech_email := Some v\<rparr>),
      (str_includes key ''billing'' \<and> str_includes key ''name'',
         \<lambda>r. r\<lparr>billing_name := Some v\<rparr>),
      (str_includes key ''billing'' \<and> str_includes key ''id'',
         \<lambda>r. r\<lparr>billing_id := Some v\<rparr>),
      (str_includes key ''name server'' \<or> str_includes key ''nameserver'',
         \<lambda>r. r\<lparr>nameservers := Some (list_or_empty (nameservers r) @ [v])\<rparr>),
      (str_includes key ''status'',
         \<lambda>r. r\<lparr>status := Some (list_or_empty (status r) @ [v])\<rparr>),
      (str_includes key ''status reason'',
         \<lambda>r. r\<lparr>status_reason := Some v\<rparr>),
      (str_includes key ''dnssec'',
         \<lambda>r. r\<lparr>dnssec := Some v\<rparr>),
      (str_includes key ''eligibility type'',
         \<lambda>r. r\<lparr>eligibility_type := Some v\<rparr>)]"

fun applyRules :: "(bool \<times> ('r \<Rightarrow> 'r)) list \<Rightarrow> 'r \<Rightarrow> 'r" where
  "applyRules [] r = r"
| "applyRules ((c, f) # rules) r = applyRules rules (if c then f r else r)"

text \<open>The key and the value of a trimmed line that has its first colon at \<open>colonIndex\<close>.\<close>

definition lineKey :: "string \<Rightarrow> nat \<Rightarrow> string" where
  "lineKey trimmed colonIndex = toLowerCase (trim (take colonIndex trimmed))"

definition lineValue :: "string \<Rightarrow> nat \<Rightarrow> string" where
  "lineValue trimmed colonIndex = trim (drop (colonIndex + 1) trimmed)"

text \<open>One iteration of \<^verbatim>\<open>for (const line of lines)\<close>; every \<^verbatim>\<open>continue\<close> returns the
  object as it was.\<close>

definition parseLine :: "whois_info \<Rightarrow> string \<Rightarrow> whois_info" where
  "parseLine result line =
     (let trimmed = trim line
      in if trimmed = [] \<or> startsWith trimmed ''%'' \<or> startsWith trimmed ''>'' then result
         else (case indexOf trimmed (CHR '':'') of
                 None \<Rightarrow> result
               | Some colonIndex \<Rightarrow>
                   (if lineValue trimmed colonIndex = [] then result
                    else applyRules
                           (whoisRules (lineKey trimmed colonIndex) (lineValue trimmed colonIndex))
                           result)))"

definition parseWhoisResponse :: "string \<Rightarrow> whois_info" where
  "parseWhoisResponse whoisText =
     (if whoisText = [] then whois_empty
      else foldl parseLine whois_empty (splitOn (CHR 0x0A) whoisText))"

section \<open>The data model\<close>

text \<open>
  \<^verbatim>\<open>interface InfrastructureData\<close>: every section is optional, and so is every property
  of a section. \<open>dns_dnssec\<close> is not declared by the interface and never set by the
  handler, but both scoring functions take \<^verbatim>\<open>data: any\<close> and read \<^verbatim>\<open>data.dns.dnssec\<close>, so
  the model keeps it. Record fields share one name space, so the fields of the DNS
  section carry the prefix \<open>dns_\<close> and those of an MX detail the prefix \<open>mxd_\<close>.
\<close>

record mx_record =
  priority :: int
  exchange :: string

record mx_detail =
  mxd_priority :: int
  mxd_exchange :: string
  mxd_provider :: string

record dns_section =
  dns_nameservers :: "string list option"
  dns_a_records :: "string list option"
  dns_aaaa_records :: "string list option"
  dns_mx_records :: "mx_record list option"
  dns_txt_records :: "string list option"
  dns_soa_record :: "string option"
  dns_ns_provider :: "string option"
  dns_dnssec :: "string option"

record ip_whois_info =
  asn :: "string option"
  organization :: "string option"
  isp :: "string option"
  country :: "string option"
  country_code :: "string option"
  continent :: "string option"
  city :: "string option"
  region :: "string option"
  latitude :: "real option"
  longitude :: "real option"
  is_vpn :: "bool option"
  is_proxy :: "bool option"

record hosting_section =
  ip_address :: "string option"
  ipv6_addresses :: "string list option"
  ip_whois :: "ip_whois_info option"

record web_server_section =
  server_header :: "string option"
  platform :: "string option"
  cdn_provider :: "string option"

record email_section =
  mx_provider :: "string option"
  spf_record :: "string option"
  dmarc_record :: "string option"
  mx_details :: "mx_detail list option"

record metadata_section =
  data_sources :: "string list"
  collection_method :: string
  md_notes :: "string list"
  warnings :: "string list"

record InfrastructureData =
  domain :: string
  timestamp :: string
  domain_registration :: "whois_info option"
  dns :: "dns_section option"
  hosting :: "hosting_section option"
  web_server :: "web_server_section option"
  email :: "email_section option"
  metadata :: metadata_section

datatype severity = Critical | High | Medium | Low | Info

record RiskScore =
  category :: string
  score :: int
  severity :: severity
  weight :: real
  findings :: "string list"
  attackVectors :: "string list"

text \<open>\<^verbatim>\<open>interface AttackSurface\<close>; its property \<^verbatim>\<open>value\<close> is the field \<open>surface_value\<close> and
  its \<^verbatim>\<open>weight\<close> the field \<open>surface_weight\<close>. Every surface the extractor pushes sets
  \<^verbatim>\<open>riskSeverity\<close>, \<^verbatim>\<open>riskScore\<close> and \<^verbatim>\<open>weight\<close>.\<close>

record AttackSurface =
  vector :: string
  surface_value :: string
  description :: string
  phishingTactic :: string
  riskSeverity :: severity
  riskScore :: int
  surface_weight :: real

section \<open>Dates\<close>

text \<open>
  \<^verbatim>\<open>new Date(s).getTime()\<close> is a parameter \<open>getTime\<close> of the model: the milliseconds
  since the epoch, or \<open>None\<close> for an invalid date, whose time is \<^verbatim>\<open>NaN\<close>. Each
  \<^verbatim>\<open>Date.now()\<close> is a parameter too. Times are integers below \<open>2^53\<close>, so the
  differences are exact and the quotients compare with 30, 90 and 1 as the real
  quotients do. Every comparison with \<^verbatim>\<open>NaN\<close> is false, so \<open>None\<close> takes no branch.
\<close>

definition daysUntilExpiry :: "(string \<Rightarrow> int option) \<Rightarrow> int \<Rightarrow> string \<Rightarrow> int option" where
  "daysUntilExpiry getTime now s =
     (case getTime s of
        None \<Rightarrow> None
      | Some t \<Rightarrow> Some \<lfloor>real_of_int (t - now) / (1000 * 60 * 60 * 24)\<rfloor>)"

definition ageInYears :: "(string \<Rightarrow> int option) \<Rightarrow> int \<Rightarrow> string \<Rightarrow> real option" where
  "ageInYears getTime now s =
     (case getTime s of
        None \<Rightarrow> None
      | Some t \<Rightarrow> Some (real_of_int (now - t) / (1000 * 60 * 60 * 24 * 365)))"

section \<open>The risk scoring engine\<close>

text \<open>
  Each category of \<^verbatim>\<open>calculateInfrastructureRisks\<close> keeps three mutable locals: the
  score, the findings and the attack vectors. A \<open>tally\<close> is their state; \<open>contribute\<close>
  adds points and pushes strings; \<open>runSteps\<close> runs the statements of a category in the
  order of the source.
\<close>

type_synonym tally = "int \<times> string list \<times> string list"

definition contribute :: "int \<Rightarrow> string list \<Rightarrow> string list \<Rightarrow> tally \<Rightarrow> tally" where
  "contribute pts fs vs t =
     (case t of (sc, findings0, vectors0) \<Rightarrow> (sc + pts, findings0 @ fs, vectors0 @ vs))"

definition unchanged :: "tally \<Rightarrow> tally" where
  "unchanged t = t"

fun runSteps :: "(tally \<Rightarrow> tally) list \<Rightarrow> tally \<Rightarrow> tally" where
  "runSteps [] t = t"
| "runSteps (step # steps) t = runSteps steps (step t)"

definition severityOf :: "int \<Rightarrow> severity" where
  "severityOf sc =
     (if sc > 70 then Critical else if sc > 40 then High else if sc > 20 then Medium else Info)"

text \<open>\<^verbatim>\<open>risks.push({category, score: Math.min(s, 100), severity, weight: s / 100, ...})\<close>.\<close>

definition riskEntry :: "string \<Rightarrow> tally \<Rightarrow> RiskScore" where
  "riskEntry cat t =
     (case t of (sc, fs, vs) \<Rightarrow>
        \<lparr>category = cat, score = min sc 100, severity = severityOf sc,
         weight = real_of_int sc / 100, findings = fs, attackVectors = vs\<rparr>)"

subsection \<open>Domain registration\<close>

definition expiryStep :: "(string \<Rightarrow> int option) \<Rightarrow> int \<Rightarrow> whois_info \<Rightarrow> tally \<Rightarrow> tally" where
  "expiryStep getTime now regData =
     (case expiration_date regData of
        None \<Rightarrow> unchanged
      | Some s \<Rightarrow>
          if s = [] then unchanged
          else (case daysUntilExpiry getTime now s of
                  None \<Rightarrow> unchanged
                | Some d \<Rightarrow>
                    if d < 30 then
                      contribute 25
                        [''Domain expires in '' @ show_int d @ '' days - HIGH URGENCY'']
                        [''Domain renewal phishing'']
                    else if d < 90 then
                      contribute 15
                        [''Domain expires in '' @ show_int d @ '' days'']
                        [''Domain renewal notification'']
                    else unchanged))"

definition ageStep :: "(string \<Rightarrow> int option) \<Rightarrow> int \<Rightarrow> whois_info \<Rightarrow> tally \<Rightarrow> tally" where
  "ageStep getTime now regData =
     (case creation_date regData of
        None \<Rightarrow> unchanged
      | Some s \<Rightarrow>
          if s = [] then unchanged
          else (case ageInYears getTime now s of
                  None \<Rightarrow> unchanged
                | Some a \<Rightarrow>
                    if a < 1 then
                      contribute 20 [''Domain is very new (< 1 year old)'']
                        [''New domain registration phishing'']
                    else unchanged))"

definition problematicStatuses :: "string list \<Rightarrow> string list" where
  "problematicStatuses sts = filter (\<lambda>s. \<not> str_includes (toLowerCase s) ''lock'') sts"

definition statusStep :: "whois_info \<Rightarrow> tally \<Rightarrow> tally" where
  "statusStep regData =
     (case status regData of
        None \<Rightarrow> unchanged
      | Some sts \<Rightarrow>
          if sts \<noteq> [] \<and> problematicStatuses sts \<noteq> [] then
            contribute 15
              [''Domain status issues: '' @ join '', '' (problematicStatuses sts)]
              [''Domain hijacking risk'']
          else unchanged)"

definition registrationRisk ::
  "(string \<Rightarrow> int option) \<Rightarrow> int \<Rightarrow> int \<Rightarrow> whois_info \<Rightarrow> RiskScore" where
  "registrationRisk getTime nowExpiry nowAge regData =
     riskEntry ''Domain Registration''
       (runSteps
          [expiryStep getTime nowExpiry regData,
           ageStep getTime nowAge regData,
           (if truthy (registrant_name regData) then
              contribute 10
                [''Registrant publicly listed: '' @ interpolate (registrant_name regData)]
                [''Registrant impersonation'']
            else unchanged),
           (if truthy (registrant_email regData) then
              contribute 8
                [''Registrant email exposed: '' @ interpolate (registrant_email regData)]
                [''Email-based social engineering'']
            else unchanged),
           (if truthy (registrar regData) then
              contribute 5 [''Registrar: '' @ interpolate (registrar regData)]
                [''Registrar spoofing attacks'']
            else unchanged),
           statusStep regData]
          (0, [], []))"

subsection \<open>DNS security\<close>

definition dnsRisk :: "dns_section \<Rightarrow> RiskScore" where
  "dnsRisk dnsData =
     riskEntry ''DNS Security''
       (runSteps
          [(if truthy (dns_ns_provider dnsData) then
              (if dns_ns_provider dnsData = Some ''ISP/Registrar Default'' then
                 contribute 10 [''Using default/ISP nameservers - less secure'']
                   [''DNS hijacking'']
               else
                 contribute (- 5)
                   [''Using managed DNS: '' @ interpolate (dns_ns_provider dnsData)] [])
            else unchanged),
           (if \<not> truthy (dns_dnssec dnsData) \<or> dns_dnssec dnsData = Some ''unsigned'' then
              contribute 20 [''DNSSEC not enabled - vulnerable to DNS spoofing'']
                [''DNS spoofing attacks'', ''Man-in-the-middle attacks'']
            else contribute (- 10) [''DNSSEC enabled''] []),
           (case dns_nameservers dnsData of
              None \<Rightarrow> unchanged
            | Some ns \<Rightarrow>
                if length ns < 2 then
                  contribute 15 [''Only 1 nameserver - single point of failure'']
                    [''Single nameserver compromise'']
                else contribute 0 [show_nat (length ns) @ '' nameservers configured''] []),
           (case dns_a_records dnsData of
              None \<Rightarrow>
                contribute 10 [''No A records found - site may be offline/misconfigured''] []
            | Some a \<Rightarrow>
                if a = [] then
                  contribute 10 [''No A records found - site may be offline/misconfigured''] []
                else unchanged)]
          (0, [], []))"

subsection \<open>Email security\<close>

definition emailRisk :: "email_section \<Rightarrow> RiskScore" where
  "emailRisk emailData =
     riskEntry ''Email Security''
       (runSteps
          [(if \<not> truthy (spf_record emailData) then
              contribute 25 [''SPF record NOT configured - email spoofing possible'']
                [''Email spoofing (high risk)'', ''Registrar spoofing'',
                 ''Hosting provider phishing'']
            else contribute (- 10) [''SPF record configured''] []),
           (if \<not> truthy (dmarc_record emailData) then
              contribute 20 [''DMARC record NOT configured''] [''DMARC bypass phishing'']
            else contribute (- 10) [''DMARC record configured''] []),
           (if mx_provider emailData = Some ''Custom/Self-hosted'' then
              contribute 15 [''Self-hosted email - higher compromise risk'']
                [''Internal email system compromise'']
            else contribute 0 [''Email provider: '' @ interpolate (mx_provider emailData)] []),
           (case mx_details emailData of
              None \<Rightarrow> unchanged
            | Some ds \<Rightarrow>
                if length ds < 2 then
                  contribute 10 [''Only 1 MX record - single point of failure'']
                    [''Email service failure'']
                else unchanged)]
          (0, [], []))"

subsection \<open>Hosting infrastructure\<close>

definition orUnknown :: "string option \<Rightarrow> string" where
  "orUnknown v = (if truthy v then interpolate v else ''Unknown'')"

definition hostingRisk :: "hosting_section \<Rightarrow> RiskScore" where
  "hostingRisk hostingData =
     riskEntry ''Hosting Infrastructure''
       (case ip_whois hostingData of
          None \<Rightarrow> (0, [], [])
        | Some ipWhois \<Rightarrow>
            runSteps
              [(if truthy_bool (is_vpn ipWhois) then
                  contribute 20 [''Hosting on VPN - suspicious activity possible'']
                    [''Anonymized phishing hosting'']
                else unchanged),
               (if truthy_bool (is_proxy ipWhois) then
                  contribute 15 [''Hosting behind proxy - possible malicious use'']
                    [''Proxy-based phishing'']
                else unchanged),
               (if truthy (asn ipWhois) then
                  contribute 0 [''ASN: '' @ interpolate (asn ipWhois)] [''ASN-based targeting'']
                else unchanged),
               (if truthy (country ipWhois) \<and> country ipWhois \<noteq> Some ''United States'' then
                  contribute 5
                    [''Hosted in: '' @ interpolate (country ipWhois)
                       @ '' - may indicate regional targeting''] []
                else unchanged),
               contribute 0 [''Organization: '' @ orUnknown (organization ipWhois)] []]
              (0, [], []))"

subsection \<open>Web server\<close>

definition webRisk :: "web_server_section \<Rightarrow> RiskScore" where
  "webRisk webData =
     (let entry =
        riskEntry ''Web Server''
          (runSteps
             [(if truthy (server_header webData) then
                 contribute 0 [''Server: '' @ interpolate (server_header webData)]
                   [''Server-specific exploits'']
               else unchanged),
              (if truthy (cdn_provider webData) then
                 contribute (- 5)
                   [''CDN: '' @ interpolate (cdn_provider webData)
                      @ '' - provides DDoS protection''] []
               else if truthy (platform webData) then
                 contribute 5 [''Web server: '' @ interpolate (platform webData)]
                   [interpolate (platform webData) @ '' vulnerability targeting'']
               else unchanged)]
             (0, [], []))
      in entry\<lparr>weight := max (weight entry) (1 / 10)\<rparr>)"

subsection \<open>The five categories\<close>

text \<open>A category is pushed only when its section is present.\<close>

definition optionally :: "('a \<Rightarrow> 'b) \<Rightarrow> 'a option \<Rightarrow> 'b list" where
  "optionally f v = (case v of None \<Rightarrow> [] | Some x \<Rightarrow> [f x])"

definition calculateInfrastructureRisks ::
  "(string \<Rightarrow> int option) \<Rightarrow> int \<Rightarrow> int \<Rightarrow> InfrastructureData \<Rightarrow> RiskScore list" where
  "calculateInfrastructureRisks getTime nowExpiry nowAge data =
     optionally (registrationRisk getTime nowExpiry nowAge) (domain_registration data)
     @ optionally dnsRisk (dns data)
     @ optionally emailRisk (email data)
     @ optionally hostingRisk (hosting data)
     @ optionally webRisk (web_server data)"

section \<open>The attack-surface extractor\<close>

text \<open>
  \<^verbatim>\<open>extractTop5AttackSurfaces\<close> evaluates six candidates in a fixed order and pushes a
  surface for each one whose data is present. A \<open>rating\<close> holds the three locals
  \<^verbatim>\<open>riskSev\<close>, \<^verbatim>\<open>riskScore\<close> and \<^verbatim>\<open>weight\<close> of a candidate. The optional chaining
  \<^verbatim>\<open>data.section?.property\<close> reads \<^verbatim>\<open>undefined\<close> from an absent section.
\<close>

type_synonym rating = "severity \<times> int \<times> real"

definition surface :: "string \<Rightarrow> string \<Rightarrow> string \<Rightarrow> string \<Rightarrow> rating \<Rightarrow> AttackSurface" where
  "surface vec val descr tactic r =
     (case r of (sev, sc, w) \<Rightarrow>
        \<lparr>vector = vec, surface_value = val, description = descr, phishingTactic = tactic,
         riskSeverity = sev, riskScore = sc, surface_weight = w\<rparr>)"

definition field_of :: "('s \<Rightarrow> 'v option) \<Rightarrow> 's option \<Rightarrow> 'v option" where
  "field_of f sec = (case sec of None \<Rightarrow> None | Some x \<Rightarrow> f x)"

subsection \<open>1. Registrar\<close>

definition registrarExpiry :: "(string \<Rightarrow> int option) \<Rightarrow> int \<Rightarrow> string option \<Rightarrow> rating \<Rightarrow> rating" where
  "registrarExpiry getTime now expiration r =
     (case expiration of
        None \<Rightarrow> r
      | Some s \<Rightarrow>
          if s = [] then r
          else (case daysUntilExpiry getTime now s of
                  None \<Rightarrow> r
                | Some d \<Rightarrow>
                    if d < 30 then (Critical, 95, 95 / 100)
                    else if d < 90 then (High, 75, 85 / 100)
                    else r))"

definition registrarAge :: "(string \<Rightarrow> int option) \<Rightarrow> int \<Rightarrow> string option \<Rightarrow> rating \<Rightarrow> rating" where
  "registrarAge getTime now creation r =
     (case creation of
        None \<Rightarrow> r
      | Some s \<Rightarrow>
          if s = [] then r
          else (case ageInYears getTime now s of
                  None \<Rightarrow> r
                | Some a \<Rightarrow>
                    if a < 1 then
                      (case r of (sev, sc, w) \<Rightarrow> (High, max sc 80, max w (8 / 10)))
                    else r))"

definition registrarRating ::
  "(string \<Rightarrow> int option) \<Rightarrow> int \<Rightarrow> int \<Rightarrow> InfrastructureData \<Rightarrow> rating" where
  "registrarRating getTime nowExpiry nowAge data =
     registrarAge getTime nowAge (field_of creation_date (domain_registration data))
       (registrarExpiry getTime nowExpiry (field_of expiration_date (domain_registration data))
          (Medium, 50, 7 / 10))"

definition registrarSurface ::
  "(string \<Rightarrow> int option) \<Rightarrow> int \<Rightarrow> int \<Rightarrow> InfrastructureData \<Rightarrow> AttackSurface list" where
  "registrarSurface getTime nowExpiry nowAge data =
     (if truthy (field_of registrar (domain_registration data)) then
        [surface ''Registrar''
           (interpolate (field_of registrar (domain_registration data)))
           (''Domain registered with '' @ interpolate (field_of registrar (domain_registration data)))
           ''Spoof registrar communications about domain renewal, billing, or security alerts''
           (registrarRating getTime nowExpiry nowAge data)]
      else [])"

subsection \<open>2. Email provider\<close>

definition emailRating :: "InfrastructureData \<Rightarrow> rating" where
  "emailRating data =
     (let hasSpf = truthy (field_of spf_record (email data));
          hasDmarc = truthy (field_of dmarc_record (email data))
      in if \<not> hasSpf \<and> \<not> hasDmarc then (Critical, 90, 9 / 10)
         else if \<not> hasSpf \<or> \<not> hasDmarc then (High, 75, 8 / 10)
         else (Low, 30, 3 / 10))"

definition emailSurface :: "InfrastructureData \<Rightarrow> AttackSurface list" where
  "emailSurface data =
     (if truthy (field_of mx_provider (email data)) then
        [surface ''Email Provider''
           (interpolate (field_of mx_provider (email data)))
           (''Using '' @ interpolate (field_of mx_provider (email data)) @ '' for email services'')
           ''Impersonate email provider with account alerts, security updates, or verification requests''
           (emailRating data)]
      else [])"

subsection \<open>3. DNS provider\<close>

definition dnsRating :: "InfrastructureData \<Rightarrow> rating" where
  "dnsRating data =
     (let hasDnssec = (truthy (field_of dns_dnssec (dns data))
                       \<and> field_of dns_dnssec (dns data) \<noteq> Some ''unsigned'');
          nsCount = (case field_of dns_nameservers (dns data) of
                       None \<Rightarrow> 0
                     | Some ns \<Rightarrow> length ns)
      in if \<not> hasDnssec \<and> nsCount < 2 then (High, 80, 8 / 10)
         else if \<not> hasDnssec then (Medium, 60, 6 / 10)
         else (Medium, 50, 6 / 10))"

definition dnsSurface :: "InfrastructureData \<Rightarrow> AttackSurface list" where
  "dnsSurface data =
     (if truthy (field_of dns_ns_provider (dns data)) then
        [surface ''DNS Provider''
           (interpolate (field_of dns_ns_provider (dns data)))
           (''DNS hosted by '' @ interpolate (field_of dns_ns_provider (dns data)))
           ''Pose as DNS provider with urgent alerts about DNS configuration or security issues''
           (dnsRating data)]
      else [])"

subsection \<open>4. Registrant contact\<close>

definition contactName :: "InfrastructureData \<Rightarrow> string" where
  "contactName data =
     (if truthy (field_of registrant_name (domain_registration data)) then
        interpolate (field_of registrant_name (domain_registration data))
      else orUnknown (field_of registrant_organization (domain_registration data)))"

definition registrantSurface :: "InfrastructureData \<Rightarrow> AttackSurface list" where
  "registrantSurface data =
     (if truthy (field_of registrant_name (domain_registration data))
         \<or> truthy (field_of registrant_organization (domain_registration data)) then
        [surface ''Registrant Contact''
           (contactName data)
           (''Domain registered to '' @ contactName data)
           ''Target registrant with personalized emails using their name and organization''
           (if truthy (field_of registrant_email (domain_registration data))
            then (High, 75, 75 / 100)
            else (Medium, 55, 65 / 100))]
      else [])"

subsection \<open>5. Hosting provider\<close>

definition hostProvider :: "InfrastructureData \<Rightarrow> string" where
  "hostProvider data =
     (if truthy (field_of organization (field_of ip_whois (hosting data))) then
        interpolate (field_of organization (field_of ip_whois (hosting data)))
      else orUnknown (field_of isp (field_of ip_whois (hosting data))))"

definition hostingSurface :: "InfrastructureData \<Rightarrow> AttackSurface list" where
  "hostingSurface data =
     (if truthy (field_of organization (field_of ip_whois (hosting data)))
         \<or> truthy (field_of isp (field_of ip_whois (hosting data))) then
        [surface ''Hosting Provider''
           (hostProvider data)
           (''Hosted by '' @ hostProvider data
              @ (if truthy (field_of country (field_of ip_whois (hosting data))) then
                   '' ('' @ interpolate (field_of country (field_of ip_whois (hosting data))) @ '')''
                 else []))
           ''Impersonate hosting provider with security alerts or account verification requests''
           (if truthy_bool (field_of is_vpn (field_of ip_whois (hosting data)))
               \<or> truthy_bool (field_of is_proxy (field_of ip_whois (hosting data)))
            then (High, 75, 75 / 100)
            else (Low, 40, 4 / 10))]
      else [])"

subsection \<open>6. Web server\<close>

definition webSurface :: "InfrastructureData \<Rightarrow> AttackSurface list" where
  "webSurface data =
     (if truthy (field_of platform (web_server data))
         \<or> truthy (field_of server_header (web_server data)) then
        [surface ''Web Server''
           (orUnknown (field_of platform (web_server data)))
           (''Running '' @ orUnknown (field_of platform (web_server data)) @ '' web server'')
           (''Target '' @ orUnknown (field_of platform (web_server data))
              @ ''-specific vulnerabilities or platform administration teams'')
           (Low, 35, 35 / 100)]
      else [])"

subsection \<open>Ranking\<close>

text \<open>
  \<^verbatim>\<open>surfaces.sort((a, b) => (b.riskScore || 0) - (a.riskScore || 0)).slice(0, 5)\<close>.
  Every pushed surface has a positive \<^verbatim>\<open>riskScore\<close>, so \<^verbatim>\<open>|| 0\<close> changes nothing.
  \<^verbatim>\<open>Array.prototype.sort\<close> is stable, and the comparator is a total preorder, so
  the result is the stable sort by descending score; \<open>sort_key\<close> on the negated score
  is that sort.
\<close>

definition candidateSurfaces ::
  "(string \<Rightarrow> int option) \<Rightarrow> int \<Rightarrow> int \<Rightarrow> InfrastructureData \<Rightarrow> AttackSurface list" where
  "candidateSurfaces getTime nowExpiry nowAge data =
     registrarSurface getTime nowExpiry nowAge data
     @ emailSurface data
     @ dnsSurface data
     @ registrantSurface data
     @ hostingSurface data
     @ webSurface data"

definition sortByRiskScore :: "AttackSurface list \<Rightarrow> AttackSurface list" where
  "sortByRiskScore surfaces = sort_key (\<lambda>s. - riskScore s) surfaces"

text \<open>The second argument \<^verbatim>\<open>riskScores\<close> only fills a map that is never read.\<close>

definition extractTop5AttackSurfaces ::
  "(string \<Rightarrow> int option) \<Rightarrow> int \<Rightarrow> int \<Rightarrow> InfrastructureData \<Rightarrow> RiskScore list
     \<Rightarrow> AttackSurface list" where
  "extractTop5AttackSurfaces getTime nowExpiry nowAge data riskScores =
     take 5 (sortByRiskScore (candidateSurfaces getTime nowExpiry nowAge data))"

section \<open>The outside world\<close>

text \<open>
  Every network call of the handler is a field of \<open>environment\<close>: a function from the
  arguments of the call to its answer, where \<open>None\<close> is a promise that rejects (an
  error or a timeout). \<open>resolveSoa\<close> answers with the JSON text of the SOA object.
  \<open>fetchHead\<close> and \<open>fetchJson\<close> are the two uses of \<^verbatim>\<open>fetch\<close>. The clock readings are
  the values of \<^verbatim>\<open>new Date().toISOString()\<close> and of the four calls of \<^verbatim>\<open>Date.now()\<close>.
\<close>

record head_response =
  hdr_server :: "string option"
  hdr_powered_by :: "string option"
  hdr_cf_ray :: "string option"
  hdr_status :: int

text \<open>
  The body of the IP lookup: \<open>json_fields\<close> holds the properties the handler copies,
  under the names it copies them to (\<^verbatim>\<open>data.org\<close> is \<open>organization\<close>). A response whose
  \<^verbatim>\<open>json()\<close> rejects, or whose body is not an object, has \<open>resp_json = None\<close>.
\<close>

record ip_json =
  json_success_is_false :: bool
  json_fields :: ip_whois_info

record ip_response =
  resp_ok :: bool
  resp_json :: "ip_json option"

record environment =
  resolveNs :: "string \<Rightarrow> string list option"
  resolve4 :: "string \<Rightarrow> string list option"
  resolve6 :: "string \<Rightarrow> string list option"
  resolveMx :: "string \<Rightarrow> mx_record list option"
  resolveTxt :: "string \<Rightarrow> string list list option"
  resolveSoa :: "string \<Rightarrow> string option"
  queryWhoisServer :: "string \<Rightarrow> string \<Rightarrow> string option"
  fetchHead :: "string \<Rightarrow> head_response option"
  fetchJson :: "string \<Rightarrow> ip_response option"
  isoTimestamp :: string
  dateTime :: "string \<Rightarrow> int option"
  nowRiskExpiry :: int
  nowRiskAge :: int
  nowSurfaceExpiry :: int
  nowSurfaceAge :: int

text \<open>The calls the handler makes, in order, are returned beside its result.\<close>

datatype lookup =
    NsQuery string
  | AQuery string
  | AaaaQuery string
  | MxQuery string
  | TxtQuery string
  | SoaQuery string
  | WhoisQuery string string
  | HeadRequest string
  | IpWhoisRequest string

section \<open>The DNS resolver adapter\<close>

record dns_results =
  res_nameservers :: "string list"
  res_a_records :: "string list"
  res_aaaa_records :: "string list"
  res_mx_records :: "mx_record list"
  res_txt_records :: "string list list"
  res_soa_record :: "string option"
  res_dmarc_txt :: "string option"

text \<open>\<^verbatim>\<open>try { xs = await query } catch { xs = [] }\<close>.\<close>

definition orEmpty :: "'a list option \<Rightarrow> 'a list" where
  "orEmpty v = (case v of None \<Rightarrow> [] | Some xs \<Rightarrow> xs)"

text \<open>\<^verbatim>\<open>dmarcTxt.flat().join("")\<close>, kept when it contains the marker.\<close>

definition dmarcOf :: "string list list option \<Rightarrow> string option" where
  "dmarcOf v =
     (case v of
        None \<Rightarrow> None
      | Some dmarcTxt \<Rightarrow>
          if dmarcTxt \<noteq> [] \<and> str_includes (concat (concat dmarcTxt)) ''v=DMARC1''
          then Some (concat (concat dmarcTxt))
          else None)"

definition resolveDNS :: "environment \<Rightarrow> string \<Rightarrow> dns_results \<times> lookup list" where
  "resolveDNS env dname =
     (\<lparr>res_nameservers = orEmpty (resolveNs env dname),
       res_a_records = orEmpty (resolve4 env dname),
       res_aaaa_records = orEmpty (resolve6 env dname),
       res_mx_records = orEmpty (resolveMx env dname),
       res_txt_records = orEmpty (resolveTxt env dname),
       res_soa_record = resolveSoa env dname,
       res_dmarc_txt = dmarcOf (resolveTxt env (''_dmarc.'' @ dname))\<rparr>,
      [NsQuery dname, AQuery dname, AaaaQuery dname, MxQuery dname, TxtQuery dname, SoaQuery dname,
       TxtQuery (''_dmarc.'' @ dname)])"

section \<open>The WHOIS client\<close>

definition WHOIS_SERVERS :: "(string \<times> string) list" where
  "WHOIS_SERVERS =
     [(''com'', ''whois.verisign-grs.com''),
      (''net'', ''whois.verisign-grs.com''),
      (''org'', ''whois.pir.org''),
      (''edu'', ''whois.educause.edu''),
      (''gov'', ''whois.nic.gov''),
      (''au'', ''whois.aunic.net''),
      (''uk'', ''whois.nic.uk''),
      (''de'', ''whois.denic.de''),
      (''fr'', ''whois.afnic.fr''),
      (''it'', ''whois.nic.it''),
      (''es'', ''whois.nic.es''),
      (''br'', ''whois.registro.br''),
      (''cn'', ''whois.cnnic.cn''),
      (''jp'', ''whois.jprs.jp''),
      (''in'', ''whois.registry.in''),
      (''default'', ''whois.internic.net'')]"

text \<open>
  \<^verbatim>\<open>WHOIS_SERVERS[tld] || WHOIS_SERVERS.default\<close> indexes an object literal, so the
  lookup also finds the properties every object inherits. Two of their names are
  lower-case and can be a lower-cased label: \<^verbatim>\<open>constructor\<close> and \<^verbatim>\<open>__proto__\<close>. For them
  the value is a function or an object, which is truthy and is returned as the server;
  \<open>None\<close> stands for such a server that is not a string.
\<close>

definition inheritedProperty :: "string \<Rightarrow> bool" where
  "inheritedProperty tld = (tld = ''constructor'' \<or> tld = ''__proto__'')"

definition getWhoisServer :: "string \<Rightarrow> string option" where
  "getWhoisServer dname =
     (let tld = toLowerCase (last (splitOn (CHR ''.'') dname))
      in case map_of WHOIS_SERVERS tld of
           Some server \<Rightarrow> Some server
         | None \<Rightarrow> if inheritedProperty tld then None else Some ''whois.internic.net'')"

text \<open>
  \<^verbatim>\<open>queryWhoisServer\<close> cannot open a connection to a host that is not a string: the
  promise rejects before anything is sent, and the \<^verbatim>\<open>catch\<close> of \<^verbatim>\<open>getWhoisInfo\<close> returns
  the empty object, as it does for every failed query.
\<close>

definition getWhoisInfo :: "environment \<Rightarrow> string \<Rightarrow> whois_info \<times> lookup list" where
  "getWhoisInfo env dname =
     (case getWhoisServer dname of
        None \<Rightarrow> (whois_empty, [])
      | Some whoisServer \<Rightarrow>
          ((case queryWhoisServer env whoisServer dname of
              None \<Rightarrow> whois_empty
            | Some whoisResponse \<Rightarrow>
                if whoisResponse = [] then whois_empty
                else parseWhoisResponse whoisResponse),
           [WhoisQuery whoisServer dname]))"

section \<open>The HTTP fingerprint probe\<close>

record http_headers =
  h_server_header :: "string option"
  h_powered_by :: "string option"
  h_status :: "int option"
  h_cdn_provider :: "string option"
  h_platform :: "string option"

definition headers_empty :: http_headers where
  "headers_empty =
     \<lparr>h_server_header = None, h_powered_by = None, h_status = None,
      h_cdn_provider = None, h_platform = None\<rparr>"

text \<open>\<^verbatim>\<open>response.headers.get(name) || ""\<close>.\<close>

definition orBlank :: "string option \<Rightarrow> string" where
  "orBlank v = (case v of None \<Rightarrow> [] | Some s \<Rightarrow> s)"

definition getHttpHeaders :: "environment \<Rightarrow> string \<Rightarrow> http_headers \<times> lookup list" where
  "getHttpHeaders env dname =
     ((case fetchHead env (''https://'' @ dname) of
         None \<Rightarrow> headers_empty
       | Some response \<Rightarrow>
           (let server = orBlank (hdr_server response);
                powerBy = orBlank (hdr_powered_by response);
                cfRay = orBlank (hdr_cf_ray response)
            in \<lparr>h_server_header = Some server,
                h_powered_by = Some powerBy,
                h_status = Some (hdr_status response),
                h_cdn_provider =
                  (if str_includes (toLowerCase server) ''cloudflare'' \<or> cfRay \<noteq> []
                   then Some ''Cloudflare''
                   else if str_includes (toLowerCase server) ''akamai'' then Some ''Akamai''
                   else None),
                h_platform =
                  (if str_includes (toLowerCase server) ''nginx'' then Some ''Nginx''
                   else if str_includes (toLowerCase server) ''apache'' then Some ''Apache''
                   else if str_includes (toLowerCase server) ''iis'' then Some ''Microsoft IIS''
                   else None)\<rparr>)),
      [HeadRequest (''https://'' @ dname)])"

section \<open>Provider classification\<close>

definition detectEmailProvider :: "string \<Rightarrow> string" where
  "detectEmailProvider exch =
     (let lower = toLowerCase exch
      in if str_includes lower ''google'' \<or> str_includes lower ''gmail'' then ''Google Workspace''
         else if str_includes lower ''microsoft'' \<or> str_includes lower ''outlook''
           then ''Microsoft 365''
         else if str_includes lower ''zoho'' then ''Zoho Mail''
         else if str_includes lower ''protonmail'' then ''Proton Mail''
         else if str_includes lower ''mailgun'' then ''Mailgun''
         else if str_includes lower ''sendgrid'' then ''SendGrid''
         else if str_includes lower ''fastmail'' then ''Fastmail''
         else if str_includes lower ''aws'' \<or> str_includes lower ''ses'' then ''Amazon SES''
         else if str_includes lower ''office365'' then ''Microsoft 365''
         else ''Custom/Self-hosted'')"

definition detectNsProvider :: "string list \<Rightarrow> string" where
  "detectNsProvider nss =
     (case nss of
        [] \<Rightarrow> ''Unknown''
      | first # others \<Rightarrow>
          (let ns = toLowerCase first
           in if str_includes ns ''cloudflare'' then ''Cloudflare''
              else if str_includes ns ''route53'' \<or> str_includes ns ''awsdns'' then ''AWS Route 53''
              else if str_includes ns ''akamai'' then ''Akamai''
              else if str_includes ns ''google'' \<and> str_includes ns ''dns'' then ''Google Cloud DNS''
              else if str_includes ns ''azure'' then ''Azure DNS''
              else ''ISP/Registrar Default''))"

section \<open>The IP reputation lookup\<close>

definition ip_whois_empty :: ip_whois_info where
  "ip_whois_empty =
     \<lparr>asn = None, organization = None, isp = None, country = None, country_code = None,
      continent = None, city = None, region = None, latitude = None, longitude = None,
      is_vpn = None, is_proxy = None\<rparr>"

text \<open>\<^verbatim>\<open>if (data.x) ipWhoisInfo.x = data.x\<close>: a falsy property is not copied.\<close>

definition keep :: "string option \<Rightarrow> string option" where
  "keep v = (if truthy v then v else None)"

definition keep_num :: "real option \<Rightarrow> real option" where
  "keep_num v = (if truthy_num v then v else None)"

definition keep_bool :: "bool option \<Rightarrow> bool option" where
  "keep_bool v = (if truthy_bool v then v else None)"

definition copyTruthy :: "ip_whois_info \<Rightarrow> ip_whois_info" where
  "copyTruthy d =
     \<lparr>asn = keep (asn d), organization = keep (organization d), isp = keep (isp d),
      country = keep (country d), country_code = keep (country_code d),
      continent = keep (continent d), city = keep (city d), region = keep (region d),
      latitude = keep_num (latitude d), longitude = keep_num (longitude d),
      is_vpn = keep_bool (is_vpn d), is_proxy = keep_bool (is_proxy d)\<rparr>"

definition getIpWhoisInfo :: "environment \<Rightarrow> string \<Rightarrow> ip_whois_info \<times> lookup list" where
  "getIpWhoisInfo env ipAddress =
     ((case fetchJson env (''https://ipwhois.app/json/'' @ ipAddress) of
         None \<Rightarrow> ip_whois_empty
       | Some response \<Rightarrow>
           if resp_ok response then
             (case resp_json response of
                None \<Rightarrow> ip_whois_empty
              | Some d \<Rightarrow>
                  if json_success_is_false d then ip_whois_empty
                  else copyTruthy (json_fields d))
           else ip_whois_empty),
      [IpWhoisRequest (''https://ipwhois.app/json/'' @ ipAddress)])"

section \<open>The handler \<^verbatim>\<open>POST /api/infrastructure\<close>\<close>

text \<open>
  The request: \<open>BodyError msg\<close> is a body that throws before the validation (it is not
  JSON, or it is \<^verbatim>\<open>null\<close>) with the error message \<open>msg\<close>; otherwise the body has a
  property \<^verbatim>\<open>domain\<close> that is absent, not a string, or a string.
\<close>

datatype body_domain = Absent | NotAString | StringValue string

datatype request = BodyError string | Body body_domain

text \<open>The response: the success body with status 200, or an error body with its status.\<close>

datatype response =
    Success InfrastructureData "RiskScore list" "AttackSurface list"
  | Failure nat string

subsection \<open>The sections of the result\<close>

text \<open>\<^verbatim>\<open>if (dnsData.a_records?.length > 0) result.dns = {...}\<close>.\<close>

definition dnsSection :: "dns_results \<Rightarrow> dns_section option" where
  "dnsSection dnsData =
     (if res_a_records dnsData \<noteq> [] then
        Some \<lparr>dns_nameservers = Some (res_nameservers dnsData),
              dns_a_records = Some (res_a_records dnsData),
              dns_aaaa_records = Some (res_aaaa_records dnsData),
              dns_mx_records = Some (res_mx_records dnsData),
              dns_txt_records = Some (concat (res_txt_records dnsData)),
              dns_soa_record = res_soa_record dnsData,
              dns_ns_provider = Some (detectNsProvider (res_nameservers dnsData)),
              dns_dnssec = None\<rparr>
      else None)"

text \<open>\<^verbatim>\<open>if (httpHeaders.server_header || httpHeaders.powered_by) result.web_server = {...}\<close>.\<close>

definition webSection :: "http_headers \<Rightarrow> web_server_section option" where
  "webSection httpHeaders =
     (if truthy (h_server_header httpHeaders) \<or> truthy (h_powered_by httpHeaders) then
        Some \<lparr>server_header = h_server_header httpHeaders,
              platform = h_platform httpHeaders,
              cdn_provider = h_cdn_provider httpHeaders\<rparr>
      else None)"

text \<open>\<^verbatim>\<open>if (dnsData.mx_records && dnsData.mx_records.length > 0) { ... result.email = {...} }\<close>.\<close>

definition emailSection :: "dns_results \<Rightarrow> email_section option" where
  "emailSection dnsData =
     (case res_mx_records dnsData of
        [] \<Rightarrow> None
      | first # others \<Rightarrow>
          Some \<lparr>mx_provider = Some (detectEmailProvider (exchange first)),
                spf_record =
                  keep (find (\<lambda>txt. str_includes txt ''v=spf1'')
                          (concat (res_txt_records dnsData))),
                dmarc_record = keep (res_dmarc_txt dnsData),
                mx_details =
                  Some (map (\<lambda>mx. \<lparr>mxd_priority = priority mx, mxd_exchange = exchange mx,
                                     mxd_provider = detectEmailProvider (exchange mx)\<rparr>)
                          (res_mx_records dnsData))\<rparr>)"

text \<open>\<^verbatim>\<open>if (dnsData.a_records?.[0]) { ipWhoisData = await getIpWhoisInfo(...); result.hosting = {...} }\<close>:
  the only place that calls the IP lookup.\<close>

definition hostingSection :: "environment \<Rightarrow> dns_results \<Rightarrow> hosting_section option \<times> lookup list" where
  "hostingSection env dnsData =
     (case res_a_records dnsData of
        [] \<Rightarrow> (None, [])
      | ip # others \<Rightarrow>
          if ip = [] then (None, [])
          else (Some \<lparr>ip_address = Some ip,
                      ipv6_addresses = Some (res_aaaa_records dnsData),
                      ip_whois = Some (fst (getIpWhoisInfo env ip))\<rparr>,
                snd (getIpWhoisInfo env ip)))"

text \<open>\<^verbatim>\<open>if (Object.keys(whoisData).length > 0) result.domain_registration = whoisData;
  else result.metadata.warnings.push("WHOIS data unavailable")\<close>. This is the only
  statement that writes to \<^verbatim>\<open>warnings\<close>.\<close>

definition registrationSection :: "whois_info \<Rightarrow> whois_info option" where
  "registrationSection whoisData = (if whoisData \<noteq> whois_empty then Some whoisData else None)"

definition whoisWarnings :: "whois_info \<Rightarrow> string list" where
  "whoisWarnings whoisData = (if whoisData \<noteq> whois_empty then [] else [''WHOIS data unavailable''])"

definition initialMetadata :: metadata_section where
  "initialMetadata =
     \<lparr>data_sources = [''Node.js DNS Module'', ''WHOIS Protocol'', ''HTTP Headers'', ''ipwhois.app API''],
      collection_method = ''Passive Reconnaissance (Native & Public APIs)'',
      md_notes = [''Using Node.js DNS resolver for queries'',
                  ''WHOIS data from real WHOIS servers'',
                  ''No command-line tools required'',
                  ''Windows compatible''],
      warnings = []\<rparr>"

subsection \<open>The aggregation\<close>

text \<open>
  The result after the four lookups, before the scoring. The lookups run one after the
  other: DNS, HTTP, WHOIS, and the IP lookup last.
\<close>

definition gather :: "environment \<Rightarrow> string \<Rightarrow> InfrastructureData \<times> lookup list" where
  "gather env clean =
     (let dnsData = fst (resolveDNS env clean);
          httpHeaders = fst (getHttpHeaders env clean);
          whoisData = fst (getWhoisInfo env clean)
      in (\<lparr>domain = clean,
           timestamp = isoTimestamp env,
           domain_registration = registrationSection whoisData,
           dns = dnsSection dnsData,
           hosting = fst (hostingSection env dnsData),
           web_server = webSection httpHeaders,
           email = emailSection dnsData,
           metadata = initialMetadata\<lparr>warnings := whoisWarnings whoisData\<rparr>\<rparr>,
          snd (resolveDNS env clean) @ snd (getHttpHeaders env clean)
            @ snd (getWhoisInfo env clean) @ snd (hostingSection env dnsData)))"

text \<open>\<^verbatim>\<open>result.metadata.notes.push("Risk scores calculated for each category")\<close>, after the
  risk scores are computed and before the attack surfaces are extracted.\<close>

definition noteScored :: "InfrastructureData \<Rightarrow> InfrastructureData" where
  "noteScored result =
     result\<lparr>metadata :=
       (metadata result)\<lparr>md_notes :=
         md_notes (metadata result) @ [''Risk scores calculated for each category'']\<rparr>\<rparr>"

definition respond :: "environment \<Rightarrow> InfrastructureData \<Rightarrow> response" where
  "respond env result =
     (let riskScores =
            calculateInfrastructureRisks (dateTime env) (nowRiskExpiry env) (nowRiskAge env) result
      in Success (noteScored result) riskScores
           (extractTop5AttackSurfaces (dateTime env) (nowSurfaceExpiry env) (nowSurfaceAge env)
              (noteScored result) riskScores))"

text \<open>
  The handler. The \<^verbatim>\<open>catch\<close> of the outer \<^verbatim>\<open>try\<close> answers 500 with the message of the
  error, or a fixed text when the message is empty; \<^verbatim>\<open>!domain || typeof domain !== "string"\<close>
  answers 400, and the empty string is falsy. Nothing after the validation throws:
  every lookup has its own \<^verbatim>\<open>try\<close>/\<^verbatim>\<open>catch\<close>.
\<close>

definition POST :: "environment \<Rightarrow> request \<Rightarrow> response \<times> lookup list" where
  "POST env req =
     (case req of
        BodyError msg \<Rightarrow>
          (Failure 500 (if msg = [] then ''Infrastructure reconnaissance failed'' else msg), [])
      | Body Absent \<Rightarrow> (Failure 400 ''Domain is required'', [])
      | Body NotAString \<Rightarrow> (Failure 400 ''Domain is required'', [])
      | Body (StringValue d) \<Rightarrow>
          if d = [] then (Failure 400 ''Domain is required'', [])
          else (respond env (fst (gather env (cleanDomain d))),
                snd (gather env (cleanDomain d))))"

text \<open>Readers of a response: the three parts of a success body, \<open>None\<close> on an error.\<close>

definition resultOf :: "response \<Rightarrow> InfrastructureData option" where
  "resultOf resp = (case resp of Success r rs ss \<Rightarrow> Some r | Failure st msg \<Rightarrow> None)"

definition riskScoresOf :: "response \<Rightarrow> RiskScore list option" where
  "riskScoresOf resp = (case resp of Success r rs ss \<Rightarrow> Some rs | Failure st msg \<Rightarrow> None)"

definition attackSurfacesOf :: "response \<Rightarrow> AttackSurface list option" where
  "attackSurfacesOf resp = (case resp of Success r rs ss \<Rightarrow> Some ss | Failure st msg \<Rightarrow> None)"

section \<open>The words of the specification\<close>

text \<open>
  The definitions of this section are not taken from the code. They write down, in the
  words of the specification, what the theorems below compare the code with.
\<close>

text \<open>The fixed priority of the six candidate vectors.\<close>

definition insertionRank :: "string \<Rightarrow> nat" where
  "insertionRank v =
     (if v = ''Registrar'' then 0
      else if v = ''Email Provider'' then 1
      else if v = ''DNS Provider'' then 2
      else if v = ''Registrant Contact'' then 3
      else if v = ''Hosting Provider'' then 4
      else if v = ''Web Server'' then 5
      else 6)"

text \<open>\<open>a\<close> may stand before \<open>b\<close> in the ranked list: a higher score, or the same
  score and an earlier place in the fixed priority.\<close>

definition ranksBefore :: "AttackSurface \<Rightarrow> AttackSurface \<Rightarrow> bool" where
  "ranksBefore a b =
     (riskScore b < riskScore a
      \<or> (riskScore a = riskScore b \<and> insertionRank (vector a) < insertionRank (vector b)))"

text \<open>A WHOIS line split on its first colon: the lower-cased key and the value.\<close>

definition spec_key :: "string \<Rightarrow> string" where
  "spec_key line = toLowerCase (trim (takeWhile (\<lambda>c. c \<noteq> CHR '':'') (trim line)))"

definition spec_value :: "string \<Rightarrow> string" where
  "spec_value line = trim (drop 1 (dropWhile (\<lambda>c. c \<noteq> CHR '':'') (trim line)))"

text \<open>The lines the specification says contribute nothing: blank lines, lines that begin
  with \<^verbatim>\<open>%\<close> or \<^verbatim>\<open>>\<close>, and lines without a colon.\<close>

definition claimed_ignored :: "string \<Rightarrow> bool" where
  "claimed_ignored line =
     (trim line = [] \<or> startsWith (trim line) ''%'' \<or> startsWith (trim line) ''>''
      \<or> CHR '':'' \<notin> set (trim line))"

text \<open>The lines the code skips: those, and the lines with nothing after the first colon.\<close>

definition ignored :: "string \<Rightarrow> bool" where
  "ignored line = (claimed_ignored line \<or> spec_value line = [])"

text \<open>The lines of a WHOIS text.\<close>

definition linesOf :: "string \<Rightarrow> string list" where
  "linesOf text = splitOn (CHR 0x0A) text"

text \<open>The lines that are routed to \<^verbatim>\<open>registrant_email\<close>, to \<^verbatim>\<open>nameservers\<close> and to
  \<^verbatim>\<open>status\<close>: not ignored, with a key that passes the substring test.\<close>

definition setsRegistrantEmail :: "string \<Rightarrow> bool" where
  "setsRegistrantEmail line =
     (\<not> ignored line \<and> str_includes (spec_key line) ''registrant''
      \<and> str_includes (spec_key line) ''email'')"

definition addsNameserver :: "string \<Rightarrow> bool" where
  "addsNameserver line =
     (\<not> ignored line
      \<and> (str_includes (spec_key line) ''name server''
           \<or> str_includes (spec_key line) ''nameserver''))"

definition addsStatus :: "string \<Rightarrow> bool" where
  "addsStatus line = (\<not> ignored line \<and> str_includes (spec_key line) ''status'')"

text \<open>A line whose key passes none of the tests of the parser, and the lines that are
  dropped: the ignored and the unmatched ones.\<close>

definition unmatched :: "string \<Rightarrow> bool" where
  "unmatched line =
     list_all (\<lambda>rule. \<not> fst rule) (whoisRules (spec_key line) (spec_value line))"

definition dropped :: "string \<Rightarrow> bool" where
  "dropped line = (ignored line \<or> unmatched line)"

text \<open>A list property: the values of the lines routed to it, in the order of the text,
  and absent when there is no such line. A string property: the value of the last line
  routed to it.\<close>

definition collected :: "(string \<Rightarrow> bool) \<Rightarrow> string list \<Rightarrow> string list option" where
  "collected routed ls =
     (if filter routed ls = [] then None else Some (map spec_value (filter routed ls)))"

definition lastValue :: "(string \<Rightarrow> bool) \<Rightarrow> string list \<Rightarrow> string option" where
  "lastValue routed ls =
     (if filter routed ls = [] then None else Some (spec_value (last (filter routed ls))))"

text \<open>Every lookup the handler makes for the normalised domain \<open>c\<close> fails: the seven
  DNS queries, the WHOIS query (where there is a server to ask) and the HTTP probe. The IP lookup is not listed: it is
  only made for an A record, and here the A query fails.\<close>

definition lookupsFail :: "environment \<Rightarrow> string \<Rightarrow> bool" where
  "lookupsFail env c =
     (resolveNs env c = None \<and> resolve4 env c = None \<and> resolve6 env c = None
      \<and> resolveMx env c = None \<and> resolveTxt env c = None \<and> resolveSoa env c = None
      \<and> resolveTxt env (''_dmarc.'' @ c) = None
      \<and> (case getWhoisServer c of
            None \<Rightarrow> True
          | Some whoisServer \<Rightarrow> queryWhoisServer env whoisServer c = None)
      \<and> fetchHead env (''https://'' @ c) = None)"

section \<open>Concrete environments and inputs\<close>

text \<open>An environment in which every lookup fails, read on 2 November 2026.\<close>

definition offline :: environment where
  "offline =
     \<lparr>resolveNs = (\<lambda>n. None), resolve4 = (\<lambda>n. None), resolve6 = (\<lambda>n. None),
      resolveMx = (\<lambda>n. None), resolveTxt = (\<lambda>n. None), resolveSoa = (\<lambda>n. None),
      queryWhoisServer = (\<lambda>h q. None), fetchHead = (\<lambda>u. None), fetchJson = (\<lambda>u. None),
      isoTimestamp = ''2026-11-02T00:00:00.000Z'', dateTime = (\<lambda>s. None),
      nowRiskExpiry = 1793577600000, nowRiskAge = 1793577600000,
      nowSurfaceExpiry = 1793577600000, nowSurfaceAge = 1793577600000\<rparr>"

text \<open>Only WHOIS answers; the DNS queries and the HTTP probe fail.\<close>

definition whoisOnly :: environment where
  "whoisOnly = offline\<lparr>queryWhoisServer := (\<lambda>h q. Some ''Registrar: Example Registrar'')\<rparr>"

text \<open>A domain with Google mail, an SPF record and a DMARC record; nothing else answers.\<close>

definition googleMail :: environment where
  "googleMail =
     offline\<lparr>resolveMx :=
               (\<lambda>n. Some [\<lparr>priority = 1, exchange = ''aspmx.l.google.com''\<rparr>,
                          \<lparr>priority = 5, exchange = ''alt1.aspmx.l.google.com''\<rparr>]),
             resolveTxt :=
               (\<lambda>n. if n = ''_dmarc.example.com'' then Some [[''v=DMARC1; p=reject'']]
                     else Some [[''v=spf1 include:_spf.google.com ~all'']])\<rparr>"

text \<open>The name servers, the MX, TXT and SOA queries answer, and there is no A record.\<close>

definition noAddress :: environment where
  "noAddress =
     offline\<lparr>resolveNs := (\<lambda>n. Some [''ns1.example.net'', ''ns2.example.net'']),
             resolve4 := (\<lambda>n. Some []),
             resolveMx := (\<lambda>n. Some [\<lparr>priority = 10, exchange = ''mail.example.com''\<rparr>]),
             resolveTxt := (\<lambda>n. Some [[''v=spf1 -all'']]),
             resolveSoa := (\<lambda>n. Some ''{}'')\<rparr>"

text \<open>A WHOIS answer of seven lines: a comment, a status line that ends in CR, a
  registrant email, a line no test matches, a name server, a status line without a
  value, and a second status line.\<close>

definition statusLineCR :: string where
  "statusLineCR = ''Domain Status: ok'' @ [CHR 0x0D]"

definition whoisSample :: string where
  "whoisSample =
     ''% terms of use'' @ [CHR 0x0A]
     @ statusLineCR @ [CHR 0x0A]
     @ ''Registrant Email: a@b.example'' @ [CHR 0x0A]
     @ ''Sponsor: none'' @ [CHR 0x0A]
     @ ''Name Server: ns1.example.net'' @ [CHR 0x0A]
     @ ''Domain Status:'' @ [CHR 0x0A]
     @ ''Domain Status: locked''"

text \<open>A result with no section at all.\<close>

definition bare :: InfrastructureData where
  "bare =
     \<lparr>domain = ''example.com'', timestamp = ''2026-11-02T00:00:00.000Z'',
      domain_registration = None, dns = None, hosting = None, web_server = None,
      email = None, metadata = initialMetadata\<rparr>"

text \<open>A self-hosted mail server without SPF and DMARC.\<close>

definition selfHostedMail :: email_section where
  "selfHostedMail =
     \<lparr>mx_provider = Some ''Custom/Self-hosted'', spf_record = None, dmarc_record = None,
      mx_details = Some [\<lparr>mxd_priority = 10, mxd_exchange = ''mail.example.com'',
                          mxd_provider = ''Custom/Self-hosted''\<rparr>]\<rparr>"

text \<open>A registration that expires in ten days and was created four months ago, with the
  times of its two dates.\<close>

definition expiringNewDomain :: InfrastructureData where
  "expiringNewDomain =
     bare\<lparr>domain_registration :=
            Some (whois_empty\<lparr>registrar := Some ''Example Registrar'',
                              creation_date := Some ''2026-07-01'',
                              expiration_date := Some ''2026-11-12''\<rparr>)\<rparr>"

definition sampleTime :: "string \<Rightarrow> int option" where
  "sampleTime s =
     (if s = ''2026-11-12'' then Some 1794441600000
      else if s = ''2026-07-01'' then Some 1782864000000
      else None)"

text \<open>A result in which all six candidates are present, two of them with the score 75.\<close>

definition sixCandidates :: InfrastructureData where
  "sixCandidates =
     bare\<lparr>domain_registration :=
            Some (whois_empty\<lparr>registrar := Some ''Example Registrar'',
                              registrant_name := Some ''Alex Doe'',
                              registrant_email := Some ''alex@example.com''\<rparr>),
          dns :=
            Some \<lparr>dns_nameservers = Some [''ns1.example.net'', ''ns2.example.net''],
                  dns_a_records = Some [''192.0.2.1''], dns_aaaa_records = Some [],
                  dns_mx_records = Some [], dns_txt_records = Some [],
                  dns_soa_record = None, dns_ns_provider = Some ''ISP/Registrar Default'',
                  dns_dnssec = None\<rparr>,
          hosting :=
            Some \<lparr>ip_address = Some ''192.0.2.1'', ipv6_addresses = Some [],
                  ip_whois = Some (ip_whois_empty\<lparr>organization := Some ''Example Hosting''\<rparr>)\<rparr>,
          web_server :=
            Some \<lparr>server_header = Some ''nginx'', platform = Some ''Nginx'',
                  cdn_provider = None\<rparr>,
          email :=
            Some \<lparr>mx_provider = Some ''Google Workspace'', spf_record = Some ''v=spf1 -all'',
                  dmarc_record = None, mx_details = None\<rparr>\<rparr>"

section \<open>General facts\<close>

subsection \<open>Evaluation of strings\<close>

lemmas string_eval = toLowerCase_def isUpperChar_def startsWith_def trim_def isWhitespace_def

lemma cleanDomain_example: "cleanDomain ''example.com'' = ''example.com''"
  by (simp add: cleanDomain_def firstSegment_def stripWww_def stripScheme_def string_eval)

lemma show_nat_not_N: "show_nat n @ s \<noteq> CHR ''N'' # t"
proof (induction n arbitrary: s rule: show_nat.induct)
  case (1 n)
  show ?case
  proof (cases "n < 10")
    case True
    then have "n \<in> {0, 1, 2, 3, 4, 5, 6, 7, 8, 9}" by auto
    then show ?thesis by (subst show_nat.simps) auto
  next
    case False
    with "1" [of "(''0123456789'' ! (n mod 10)) # s"] show ?thesis
      by (subst show_nat.simps) simp
  qed
qed

text \<open>The WHOIS server of a listed label, of an unlisted one, and of a label that names
  an inherited property.\<close>

lemma whois_server_examples:
  "getWhoisServer ''example.co.uk'' = Some ''whois.nic.uk''"
  "getWhoisServer ''example.dev'' = Some ''whois.internic.net''"
  "getWhoisServer ''example.constructor'' = None"
  "fst (getWhoisInfo env ''example.constructor'') = whois_empty"
  by (simp_all add: getWhoisInfo_def getWhoisServer_def WHOIS_SERVERS_def inheritedProperty_def
      toLowerCase_def isUpperChar_def)

subsection \<open>The handler, section by section\<close>

lemma gather_sections:
  "domain (fst (gather env c)) = c"
  "domain_registration (fst (gather env c)) = registrationSection (fst (getWhoisInfo env c))"
  "dns (fst (gather env c)) = dnsSection (fst (resolveDNS env c))"
  "hosting (fst (gather env c)) = fst (hostingSection env (fst (resolveDNS env c)))"
  "web_server (fst (gather env c)) = webSection (fst (getHttpHeaders env c))"
  "email (fst (gather env c)) = emailSection (fst (resolveDNS env c))"
  "warnings (metadata (fst (gather env c))) = whoisWarnings (fst (getWhoisInfo env c))"
  by (simp_all add: gather_def Let_def)

lemma gather_lookups:
  "snd (gather env c) =
     snd (resolveDNS env c) @ snd (getHttpHeaders env c) @ snd (getWhoisInfo env c)
       @ snd (hostingSection env (fst (resolveDNS env c)))"
  by (simp add: gather_def Let_def)

lemma adapter_lookups:
  "snd (resolveDNS env c) =
     [NsQuery c, AQuery c, AaaaQuery c, MxQuery c, TxtQuery c, SoaQuery c,
      TxtQuery (''_dmarc.'' @ c)]"
  "snd (getHttpHeaders env c) = [HeadRequest (''https://'' @ c)]"
  "snd (getWhoisInfo env c) =
     (case getWhoisServer c of None \<Rightarrow> [] | Some whoisServer \<Rightarrow> [WhoisQuery whoisServer c])"
  by (simp_all add: resolveDNS_def getHttpHeaders_def getWhoisInfo_def split: option.splits)

lemma noteScored_sections:
  "domain (noteScored r) = domain r"
  "domain_registration (noteScored r) = domain_registration r"
  "dns (noteScored r) = dns r"
  "hosting (noteScored r) = hosting r"
  "web_server (noteScored r) = web_server r"
  "email (noteScored r) = email r"
  "warnings (metadata (noteScored r)) = warnings (metadata r)"
  by (simp_all add: noteScored_def)

text \<open>A request with a non-empty string \<^verbatim>\<open>domain\<close> is always answered with the success
  body, whatever the lookups return.\<close>

lemma POST_valid:
  "d \<noteq> [] \<Longrightarrow>
     fst (POST env (Body (StringValue d))) =
       Success (noteScored (fst (gather env (cleanDomain d))))
         (calculateInfrastructureRisks (dateTime env) (nowRiskExpiry env) (nowRiskAge env)
            (fst (gather env (cleanDomain d))))
         (extractTop5AttackSurfaces (dateTime env) (nowSurfaceExpiry env) (nowSurfaceAge env)
            (noteScored (fst (gather env (cleanDomain d))))
            (calculateInfrastructureRisks (dateTime env) (nowRiskExpiry env) (nowRiskAge env)
               (fst (gather env (cleanDomain d)))))"
  by (simp add: POST_def respond_def Let_def)

lemma POST_lookups:
  "d \<noteq> [] \<Longrightarrow> snd (POST env (Body (StringValue d))) = snd (gather env (cleanDomain d))"
  by (simp add: POST_def)

lemma POST_domain:
  "d \<noteq> [] \<Longrightarrow>
     map_option domain (resultOf (fst (POST env (Body (StringValue d))))) = Some (cleanDomain d)"
  by (simp add: POST_valid resultOf_def noteScored_sections gather_sections)

subsection \<open>Risk entries\<close>

lemma findings_riskEntry: "findings (riskEntry c t) = fst (snd t)"
  by (cases t) (simp add: riskEntry_def)

lemma contribute_findings: "fst (snd (contribute p fs vs t)) = fst (snd t) @ fs"
  by (cases t) (simp add: contribute_def)

lemma risk_categories:
  "category (registrationRisk g n1 n2 w) = ''Domain Registration''"
  "category (dnsRisk s) = ''DNS Security''"
  "category (emailRisk e) = ''Email Security''"
  "category (hostingRisk h) = ''Hosting Infrastructure''"
  "category (webRisk ws) = ''Web Server''"
  by (simp_all add: registrationRisk_def dnsRisk_def emailRisk_def hostingRisk_def webRisk_def
      riskEntry_def Let_def split: prod.splits)

lemma dns_risk_entries:
  "x \<in> set (calculateInfrastructureRisks g n1 n2 r) \<Longrightarrow> category x = ''DNS Security''
   \<Longrightarrow> \<exists>sec. dns r = Some sec \<and> x = dnsRisk sec"
  by (cases "dns r")
     (auto simp add: calculateInfrastructureRisks_def optionally_def risk_categories
      split: option.splits)

lemma email_risk_entries:
  "x \<in> set (calculateInfrastructureRisks g n1 n2 r) \<Longrightarrow> category x = ''Email Security''
   \<Longrightarrow> \<exists>e. email r = Some e \<and> x = emailRisk e"
  by (cases "email r")
     (auto simp add: calculateInfrastructureRisks_def optionally_def risk_categories
      split: option.splits)

lemma no_sections_no_risks:
  "domain_registration r = None \<Longrightarrow> dns r = None \<Longrightarrow> email r = None \<Longrightarrow> hosting r = None
   \<Longrightarrow> web_server r = None \<Longrightarrow> calculateInfrastructureRisks g n1 n2 r = []"
  by (simp add: calculateInfrastructureRisks_def optionally_def)

subsection \<open>Candidate surfaces\<close>

lemma vector_surface: "vector (surface v x d t r) = v"
  by (cases r) (simp add: surface_def)

lemma riskScore_surface: "riskScore (surface v x d t (sev, sc, w)) = sc"
  and riskSeverity_surface: "riskSeverity (surface v x d t (sev, sc, w)) = sev"
  by (simp_all add: surface_def)

lemma candidate_vectors:
  "map vector (registrarSurface getTime n1 n2 data) =
     (if truthy (field_of registrar (domain_registration data)) then [''Registrar''] else [])"
  "map vector (emailSurface data) =
     (if truthy (field_of mx_provider (email data)) then [''Email Provider''] else [])"
  "map vector (dnsSurface data) =
     (if truthy (field_of dns_ns_provider (dns data)) then [''DNS Provider''] else [])"
  "map vector (registrantSurface data) =
     (if truthy (field_of registrant_name (domain_registration data))
         \<or> truthy (field_of registrant_organization (domain_registration data))
      then [''Registrant Contact''] else [])"
  "map vector (hostingSurface data) =
     (if truthy (field_of organization (field_of ip_whois (hosting data)))
         \<or> truthy (field_of isp (field_of ip_whois (hosting data)))
      then [''Hosting Provider''] else [])"
  "map vector (webSurface data) =
     (if truthy (field_of platform (web_server data))
         \<or> truthy (field_of server_header (web_server data))
      then [''Web Server''] else [])"
  by (simp_all add: registrarSurface_def emailSurface_def dnsSurface_def
      registrantSurface_def hostingSurface_def webSurface_def vector_surface)

lemma candidate_lengths:
  "length (registrarSurface g n1 n2 data) \<le> 1 \<and> length (emailSurface data) \<le> 1
   \<and> length (dnsSurface data) \<le> 1 \<and> length (registrantSurface data) \<le> 1
   \<and> length (hostingSurface data) \<le> 1 \<and> length (webSurface data) \<le> 1"
  by (simp add: registrarSurface_def emailSurface_def dnsSurface_def
      registrantSurface_def hostingSurface_def webSurface_def)

lemma no_sections_no_surfaces:
  "domain_registration r = None \<Longrightarrow> dns r = None \<Longrightarrow> email r = None \<Longrightarrow> hosting r = None
   \<Longrightarrow> web_server r = None \<Longrightarrow> extractTop5AttackSurfaces g n1 n2 r rs = []"
  by (simp add: extractTop5AttackSurfaces_def sortByRiskScore_def candidateSurfaces_def
      registrarSurface_def emailSurface_def dnsSurface_def registrantSurface_def
      hostingSurface_def webSurface_def field_of_def truthy_def)

lemmas surface_eval =
  extractTop5AttackSurfaces_def sortByRiskScore_def candidateSurfaces_def
  registrarSurface_def emailSurface_def dnsSurface_def registrantSurface_def
  hostingSurface_def webSurface_def field_of_def truthy_def truthy_bool_def surface_def
  registrarRating_def registrarAge_def registrarExpiry_def emailRating_def dnsRating_def
  daysUntilExpiry_def ageInYears_def

section \<open>C1: total failure of the lookups\<close>

text \<open>
  Claim C1, as stated, covers every request whose body has a string \<^verbatim>\<open>domain\<close>. The
  empty string is such a body, and the validation \<^verbatim>\<open>!domain\<close> rejects it with status
  400 before any lookup is made.
\<close>

theorem empty_domain_is_rejected:
  "fst (POST offline (Body (StringValue ''''))) = Failure 400 ''Domain is required''"
  by (simp add: POST_def)

text \<open>
  Claim C1, amended: for every request whose body has a non-empty string \<^verbatim>\<open>domain\<close>,
  when every DNS query, the WHOIS query and the HTTP probe fail (whatever the IP lookup
  would answer), the handler answers with the success body; its risk scores and attack
  surfaces are empty and \<^verbatim>\<open>result.metadata.warnings\<close> is the one note
  \<^verbatim>\<open>WHOIS data unavailable\<close>, so it is not empty.
\<close>

theorem degraded_success_when_all_lookups_fail:
  assumes "d \<noteq> []" and "lookupsFail env (cleanDomain d)"
  shows "\<exists>r. fst (POST env (Body (StringValue d))) = Success r [] []
             \<and> warnings (metadata r) = [''WHOIS data unavailable'']
             \<and> warnings (metadata r) \<noteq> []"
proof -
  let ?c = "cleanDomain d"
  let ?g = "fst (gather env ?c)"
  from assms(2) have dnsd: "fst (resolveDNS env ?c) =
      \<lparr>res_nameservers = [], res_a_records = [], res_aaaa_records = [], res_mx_records = [],
       res_txt_records = [], res_soa_record = None, res_dmarc_txt = None\<rparr>"
    by (simp add: lookupsFail_def resolveDNS_def orEmpty_def dmarcOf_def)
  from assms(2) have http: "fst (getHttpHeaders env ?c) = headers_empty"
    by (simp add: lookupsFail_def getHttpHeaders_def)
  from assms(2) have whois: "fst (getWhoisInfo env ?c) = whois_empty"
    by (simp add: lookupsFail_def getWhoisInfo_def split: option.splits)
  have secs: "domain_registration ?g = None" "dns ?g = None" "email ?g = None"
    "hosting ?g = None" "web_server ?g = None"
    by (simp_all add: gather_sections dnsd http whois registrationSection_def dnsSection_def
        emailSection_def hostingSection_def webSection_def headers_empty_def truthy_def)
  have warn: "warnings (metadata ?g) = [''WHOIS data unavailable'']"
    by (simp add: gather_sections whois whoisWarnings_def)
  have "fst (POST env (Body (StringValue d))) = Success (noteScored ?g) [] []"
    using assms(1) secs
    by (simp add: POST_valid no_sections_no_risks no_sections_no_surfaces noteScored_sections)
  moreover have "warnings (metadata (noteScored ?g)) = [''WHOIS data unavailable'']"
    by (simp add: noteScored_sections warn)
  ultimately show ?thesis by simp
qed

text \<open>The amended claim C1 at the domain \<^verbatim>\<open>example.com\<close> in the environment where every
  lookup fails.\<close>

theorem degraded_success_witness:
  "lookupsFail offline (cleanDomain ''example.com'')
   \<and> (\<exists>r. fst (POST offline (Body (StringValue ''example.com''))) = Success r [] []
          \<and> warnings (metadata r) = [''WHOIS data unavailable''])"
proof -
  have a: "''example.com'' \<noteq> []" by simp
  have b: "lookupsFail offline (cleanDomain ''example.com'')"
    by (simp add: lookupsFail_def offline_def split: option.splits)
  show ?thesis
    using degraded_success_when_all_lookups_fail [OF a b] b by blast
qed

section \<open>C2: the ranked list of attack surfaces\<close>

lemma insort_key_lex:
  fixes key :: "'a \<Rightarrow> int" and rank :: "'a \<Rightarrow> nat"
  assumes "sorted_wrt (\<lambda>a b. key a < key b \<or> (key a = key b \<and> rank a < rank b)) ys"
    and "\<forall>y \<in> set ys. rank x < rank y"
  shows "sorted_wrt (\<lambda>a b. key a < key b \<or> (key a = key b \<and> rank a < rank b))
           (insort_key key x ys)"
  using assms
proof (induction ys)
  case Nil
  then show ?case by simp
next
  case (Cons y ys)
  show ?case
  proof (cases "key x \<le> key y")
    case True
    have "\<forall>z \<in> set ys. key y \<le> key z" using Cons.prems(1) by auto
    with True Cons.prems show ?thesis by force
  next
    case False
    with Cons show ?thesis by (auto simp: set_insort_key)
  qed
qed

text \<open>A stable sort of a list that is in priority order is in lexicographic order of
  key and priority.\<close>

lemma sort_key_lex:
  fixes key :: "'a \<Rightarrow> int" and rank :: "'a \<Rightarrow> nat"
  assumes "sorted_wrt (\<lambda>a b. rank a < rank b) xs"
  shows "sorted_wrt (\<lambda>a b. key a < key b \<or> (key a = key b \<and> rank a < rank b))
           (sort_key key xs)"
  using assms
proof (induction xs)
  case Nil
  then show ?case by simp
next
  case (Cons x xs)
  then show ?case by (simp add: insort_key_lex)
qed

lemma rank_values:
  "insertionRank ''Registrar'' = 0" "insertionRank ''Email Provider'' = 1"
  "insertionRank ''DNS Provider'' = 2" "insertionRank ''Registrant Contact'' = 3"
  "insertionRank ''Hosting Provider'' = 4" "insertionRank ''Web Server'' = 5"
  by (simp_all add: insertionRank_def)

lemma candidates_in_rank_order:
  "sorted_wrt (\<lambda>a b. insertionRank (vector a) < insertionRank (vector b))
     (candidateSurfaces getTime n1 n2 data)"
proof -
  have "sorted_wrt (\<lambda>a b. insertionRank a < insertionRank b)
          (map vector (candidateSurfaces getTime n1 n2 data))"
    by (simp add: candidateSurfaces_def candidate_vectors sorted_wrt_append rank_values)
  then show ?thesis by (simp add: sorted_wrt_map)
qed

text \<open>
  Claim C2: for every input, the list \<^verbatim>\<open>attackSurfaces\<close> has at most five entries, is in
  non-increasing order of \<^verbatim>\<open>riskScore\<close>, and entries with equal scores stand in the fixed
  order Registrar, Email Provider, DNS Provider, Registrant Contact, Hosting Provider,
  Web Server. The handler returns this list unchanged.
\<close>

theorem attack_surfaces_ranked:
  "length (extractTop5AttackSurfaces getTime n1 n2 data rs) \<le> 5
   \<and> sorted_wrt (\<lambda>a b. riskScore b \<le> riskScore a)
        (extractTop5AttackSurfaces getTime n1 n2 data rs)
   \<and> sorted_wrt ranksBefore (extractTop5AttackSurfaces getTime n1 n2 data rs)"
proof -
  let ?c = "candidateSurfaces getTime n1 n2 data"
  have lex: "sorted_wrt (\<lambda>a b. - riskScore a < - riskScore b
      \<or> (- riskScore a = - riskScore b \<and> insertionRank (vector a) < insertionRank (vector b)))
      (sortByRiskScore ?c)"
    unfolding sortByRiskScore_def
    by (rule sort_key_lex [where key = "\<lambda>s. - riskScore s"
          and rank = "\<lambda>s. insertionRank (vector s)"])
       (rule candidates_in_rank_order)
  have r: "sorted_wrt ranksBefore (sortByRiskScore ?c)"
    by (rule sorted_wrt_mono_rel [OF _ lex]) (auto simp: ranksBefore_def)
  have s: "sorted_wrt (\<lambda>a b. riskScore b \<le> riskScore a) (sortByRiskScore ?c)"
    by (rule sorted_wrt_mono_rel [OF _ r]) (auto simp: ranksBefore_def)
  show ?thesis
    using r s by (simp add: extractTop5AttackSurfaces_def)
qed

text \<open>Claim C2 on a result with all six candidates: the Web Server surface is cut off,
  and of the two surfaces with the score 75 the Email Provider stands first.\<close>

theorem attack_surfaces_ranked_witness:
  "map (\<lambda>s. (vector s, riskScore s))
     (extractTop5AttackSurfaces (\<lambda>s. None) 0 0 sixCandidates []) =
     [(''Email Provider'', 75), (''Registrant Contact'', 75), (''DNS Provider'', 60),
      (''Registrar'', 50), (''Hosting Provider'', 40)]
   \<and> sorted_wrt ranksBefore (extractTop5AttackSurfaces (\<lambda>s. None) 0 0 sixCandidates [])"
  using attack_surfaces_ranked [of "\<lambda>s. None" 0 0 sixCandidates "[]"]
  by (simp add: surface_eval sixCandidates_def bare_def whois_empty_def ip_whois_empty_def)

section \<open>C3: the normalised domain\<close>

text \<open>Upper-case letters have bit 5 clear and bit 6 set, so lower-casing is idempotent
  and never produces a slash.\<close>

lemma upper_bits:
  "isUpperChar (Char b0 b1 b2 b3 b4 b5 b6 b7) \<Longrightarrow> \<not> b5 \<and> b6"
  by (cases b0; cases b1; cases b2; cases b3; cases b4; cases b5; cases b6; cases b7)
     (simp_all add: isUpperChar_def)

lemma lower_not_upper: "\<not> isUpperChar (toLowerChar c)"
proof (cases c)
  case (Char b0 b1 b2 b3 b4 b5 b6 b7)
  then show ?thesis using upper_bits [of b0 b1 b2 b3 b4 True b6 b7] by auto
qed

lemma toLowerChar_idem: "toLowerChar (toLowerChar c) = toLowerChar c"
  using lower_not_upper [of c] by (cases "toLowerChar c") simp

lemma toLowerCase_idem: "toLowerCase (toLowerCase s) = toLowerCase s"
  by (simp add: toLowerCase_def toLowerChar_idem)

lemma toLowerChar_slash: "toLowerChar c = CHR ''/'' \<longleftrightarrow> c = CHR ''/''"
proof (cases c)
  case (Char b0 b1 b2 b3 b4 b5 b6 b7)
  then show ?thesis using upper_bits [of b0 b1 b2 b3 b4 b5 b6 b7] by auto
qed

lemma splitOn_head: "splitOn sep s = h # t \<Longrightarrow> sep \<notin> set h"
  by (induction s arbitrary: h t) (auto split: if_splits list.splits)

text \<open>What the normalisation does achieve on every input: the result has no slash, and
  lower-casing it again changes nothing.\<close>

lemma cleanDomain_shape:
  "CHR ''/'' \<notin> set (cleanDomain d) \<and> toLowerCase (cleanDomain d) = cleanDomain d"
proof -
  have seg: "CHR ''/'' \<notin> set (firstSegment s)" for s
    using splitOn_head [of "CHR ''/''" s]
    by (cases "splitOn (CHR ''/'') s") (simp_all add: firstSegment_def)
  have "CHR ''/'' \<notin> set (toLowerCase s)" if "CHR ''/'' \<notin> set s" for s
  proof
    assume "CHR ''/'' \<in> set (toLowerCase s)"
    then obtain c where "c \<in> set s" "toLowerChar c = CHR ''/''"
      by (auto simp add: toLowerCase_def)
    with that show False by (simp add: toLowerChar_slash)
  qed
  then have "CHR ''/'' \<notin> set (cleanDomain d)"
    using seg by (simp add: cleanDomain_def)
  then show ?thesis by (simp add: cleanDomain_def toLowerCase_idem)
qed

text \<open>The example of the specification in lower case is normalised as expected.\<close>

lemma cleanDomain_lowercase_input:
  "cleanDomain ''https://www.example.com/path'' = ''example.com''"
  by (simp add: cleanDomain_def firstSegment_def stripWww_def stripScheme_def string_eval)

text \<open>
  Claim C3 says that the domain of the result is lower-case and has no scheme, no leading
  \<^verbatim>\<open>www.\<close> and no path, and that \<^verbatim>\<open>HTTPS://WWW.Example.com/path\<close> yields \<^verbatim>\<open>example.com\<close>.
  The code strips the scheme and \<^verbatim>\<open>www.\<close> with case-sensitive patterns before it
  lower-cases, so on this input nothing is stripped, the first segment up to a slash is
  \<^verbatim>\<open>HTTPS:\<close>, and the domain of the result is \<^verbatim>\<open>https:\<close>, in every environment.
\<close>

theorem uppercase_scheme_not_stripped:
  "cleanDomain ''HTTPS://WWW.Example.com/path'' = ''https:''
   \<and> map_option domain
        (resultOf (fst (POST env (Body (StringValue ''HTTPS://WWW.Example.com/path'')))))
      = Some ''https:''"
proof -
  have c: "cleanDomain ''HTTPS://WWW.Example.com/path'' = ''https:''"
    by (simp add: cleanDomain_def firstSegment_def stripWww_def stripScheme_def string_eval)
  then show ?thesis by (simp add: POST_domain)
qed

section \<open>C4: the range of a category score\<close>

text \<open>The upper bound holds for every category.\<close>

lemma score_riskEntry: "score (riskEntry c t) \<le> 100"
  by (cases t) (simp add: riskEntry_def)

lemma category_score_at_most_100:
  "list_all (\<lambda>x. score x \<le> 100) (calculateInfrastructureRisks g n1 n2 data)"
  by (simp add: calculateInfrastructureRisks_def optionally_def registrationRisk_def
      dnsRisk_def emailRisk_def hostingRisk_def webRisk_def Let_def score_riskEntry
      split: option.splits)

text \<open>
  Claim C4 says that every category score lies in the interval from 0 to 100, and the
  comment on \<^verbatim>\<open>RiskScore.score\<close> in the code says \<^verbatim>\<open>0-100\<close> too. The code caps the sum
  with \<^verbatim>\<open>Math.min(score, 100)\<close> and has no lower bound: for a domain with two Google MX
  records, an SPF record and a DMARC record, the handler returns the Email Security
  score -20.
\<close>

theorem email_score_below_zero:
  "map_option (map (\<lambda>x. (category x, score x)))
     (riskScoresOf (fst (POST googleMail (Body (StringValue ''example.com'')))))
   = Some [(''Email Security'', - 20)]"
proof -
  have d: "fst (resolveDNS googleMail ''example.com'') =
      \<lparr>res_nameservers = [], res_a_records = [], res_aaaa_records = [],
       res_mx_records = [\<lparr>priority = 1, exchange = ''aspmx.l.google.com''\<rparr>,
                          \<lparr>priority = 5, exchange = ''alt1.aspmx.l.google.com''\<rparr>],
       res_txt_records = [[''v=spf1 include:_spf.google.com ~all'']], res_soa_record = None,
       res_dmarc_txt = Some ''v=DMARC1; p=reject''\<rparr>"
    by (simp add: resolveDNS_def googleMail_def offline_def orEmpty_def dmarcOf_def
        startsWith_def)
  have e: "emailSection (fst (resolveDNS googleMail ''example.com'')) =
      Some \<lparr>mx_provider = Some ''Google Workspace'',
            spf_record = Some ''v=spf1 include:_spf.google.com ~all'',
            dmarc_record = Some ''v=DMARC1; p=reject'',
            mx_details =
              Some [\<lparr>mxd_priority = 1, mxd_exchange = ''aspmx.l.google.com'',
                      mxd_provider = ''Google Workspace''\<rparr>,
                    \<lparr>mxd_priority = 5, mxd_exchange = ''alt1.aspmx.l.google.com'',
                      mxd_provider = ''Google Workspace''\<rparr>]\<rparr>"
    by (simp add: d emailSection_def detectEmailProvider_def keep_def truthy_def string_eval)
  have w: "fst (getWhoisInfo googleMail ''example.com'') = whois_empty"
    by (simp add: getWhoisInfo_def googleMail_def offline_def split: option.splits)
  have h: "fst (getHttpHeaders googleMail ''example.com'') = headers_empty"
    by (simp add: getHttpHeaders_def googleMail_def offline_def)
  have s: "domain_registration (fst (gather googleMail ''example.com'')) = None"
    "dns (fst (gather googleMail ''example.com'')) = None"
    "hosting (fst (gather googleMail ''example.com'')) = None"
    "web_server (fst (gather googleMail ''example.com'')) = None"
    by (simp_all add: gather_sections d w h registrationSection_def dnsSection_def
        hostingSection_def webSection_def headers_empty_def truthy_def)
  have m: "email (fst (gather googleMail ''example.com'')) =
      emailSection (fst (resolveDNS googleMail ''example.com''))"
    by (simp add: gather_sections)
  show ?thesis
    by (simp add: POST_valid riskScoresOf_def cleanDomain_example
        calculateInfrastructureRisks_def optionally_def s m e emailRisk_def riskEntry_def
        contribute_def unchanged_def truthy_def)
qed

section \<open>C5: mail without SPF and DMARC\<close>

text \<open>Of a list of at most \<open>n + 1\<close> elements, the first \<open>n\<close> of the sorted list keep every
  element that is not the last one in the order.\<close>

lemma take_sort_key_keeps:
  fixes f :: "'a \<Rightarrow> int"
  assumes "x \<in> set xs" and "length xs \<le> Suc n"
    and "length xs = Suc n \<Longrightarrow> \<exists>y \<in> set xs. f x < f y"
  shows "x \<in> set (take n (sort_key f xs))"
proof (cases "length xs \<le> n")
  case True
  with assms(1) show ?thesis by simp
next
  case False
  with assms(2) have len: "length xs = Suc n" by simp
  let ?ys = "sort_key f xs"
  have ne: "?ys \<noteq> []" using len by (metis length_sort nat.distinct(1) list.size(3))
  have split: "?ys = take n ?ys @ [last ?ys]"
    using len ne by (metis append_butlast_last_id butlast_conv_take diff_Suc_1 length_sort)
  have "sorted (map f ?ys)" by simp
  then have "sorted (map f (take n ?ys) @ [f (last ?ys)])"
    using split by (metis list.simps(8,9) map_append)
  then have le: "\<forall>z \<in> set (take n ?ys). f z \<le> f (last ?ys)"
    by (simp add: sorted_append)
  from assms(3) [OF len] obtain y where y: "y \<in> set xs" "f x < f y" by blast
  have "x \<noteq> last ?ys"
  proof
    assume e: "x = last ?ys"
    from y(1) have "y \<in> set ?ys" by simp
    then have "y \<in> set (take n ?ys) \<or> y = last ?ys"
      using split by (metis Un_iff empty_iff insert_iff list.simps(15) set_append empty_set)
    with le y(2) e show False by auto
  qed
  moreover have "x \<in> set ?ys" using assms(1) by simp
  ultimately show ?thesis
    using split by (metis Un_iff empty_iff insert_iff list.simps(15) set_append empty_set)
qed

lemma webSurface_score: "s \<in> set (webSurface data) \<Longrightarrow> riskScore s = 35"
  by (auto simp add: webSurface_def riskScore_surface split: if_splits)

lemma emailRating_unprotected:
  "email data = Some e \<Longrightarrow> \<not> truthy (spf_record e) \<Longrightarrow> \<not> truthy (dmarc_record e)
   \<Longrightarrow> emailRating data = (Critical, 90, 9 / 10)"
  by (simp add: emailRating_def field_of_def)

lemma emailSurface_unprotected:
  assumes "email data = Some e" "\<not> truthy (spf_record e)" "\<not> truthy (dmarc_record e)"
  shows "s \<in> set (emailSurface data) \<Longrightarrow> riskSeverity s = Critical \<and> riskScore s = 90"
  using emailRating_unprotected [OF assms]
  by (auto simp add: emailSurface_def riskScore_surface riskSeverity_surface split: if_splits)

lemma email_candidate:
  assumes "s \<in> set (candidateSurfaces g n1 n2 data)" "vector s = ''Email Provider''"
  shows "s \<in> set (emailSurface data)"
  using assms
  by (auto simp add: candidateSurfaces_def registrarSurface_def dnsSurface_def
      registrantSurface_def hostingSurface_def webSurface_def vector_surface split: if_splits)

lemma emailRisk_unprotected:
  "\<not> truthy (spf_record e) \<Longrightarrow> \<not> truthy (dmarc_record e) \<Longrightarrow> 45 \<le> score (emailRisk e)"
  by (simp add: emailRisk_def riskEntry_def contribute_def unchanged_def split: option.splits)

text \<open>
  Claim C5: for every result whose email section is present with \<^verbatim>\<open>spf_record\<close> and
  \<^verbatim>\<open>dmarc_record\<close> both absent (or empty), the Email Security category is produced with a
  score of at least 45, and every Email Provider attack surface in the ranked list has
  the severity critical. That surface is in the list whenever \<^verbatim>\<open>mx_provider\<close> is a
  non-empty string, which it always is in a section the handler builds from MX records
  (see \<open>email_section_has_provider\<close>).
\<close>

theorem unprotected_email_is_critical:
  assumes "email data = Some e" and "\<not> truthy (spf_record e)" and "\<not> truthy (dmarc_record e)"
  shows "(\<exists>x \<in> set (calculateInfrastructureRisks g n1 n2 data).
            category x = ''Email Security'' \<and> 45 \<le> score x)
     \<and> (\<forall>x \<in> set (calculateInfrastructureRisks g n1 n2 data).
            category x = ''Email Security'' \<longrightarrow> 45 \<le> score x)
     \<and> (\<forall>s \<in> set (extractTop5AttackSurfaces g m1 m2 data rs).
            vector s = ''Email Provider'' \<longrightarrow> riskSeverity s = Critical)
     \<and> (truthy (mx_provider e) \<longrightarrow>
          (\<exists>s \<in> set (extractTop5AttackSurfaces g m1 m2 data rs). vector s = ''Email Provider''))"
proof (intro conjI ballI impI)
  have "emailRisk e \<in> set (calculateInfrastructureRisks g n1 n2 data)"
    using assms(1) by (simp add: calculateInfrastructureRisks_def optionally_def)
  then show "\<exists>x \<in> set (calculateInfrastructureRisks g n1 n2 data).
            category x = ''Email Security'' \<and> 45 \<le> score x"
    using emailRisk_unprotected [OF assms(2,3)] risk_categories(3) by blast
next
  fix x
  assume "x \<in> set (calculateInfrastructureRisks g n1 n2 data)"
    and "category x = ''Email Security''"
  then obtain e' where "email data = Some e'" "x = emailRisk e'"
    using email_risk_entries by blast
  with assms show "45 \<le> score x" using emailRisk_unprotected by simp
next
  fix s
  assume s: "s \<in> set (extractTop5AttackSurfaces g m1 m2 data rs)"
    "vector s = ''Email Provider''"
  then have "s \<in> set (candidateSurfaces g m1 m2 data)"
    by (auto simp add: extractTop5AttackSurfaces_def sortByRiskScore_def dest: in_set_takeD)
  then have "s \<in> set (emailSurface data)" using s(2) by (rule email_candidate)
  then show "riskSeverity s = Critical" using emailSurface_unprotected [OF assms] by blast
next
  assume mx: "truthy (mx_provider e)"
  let ?cs = "candidateSurfaces g m1 m2 data"
  obtain s where s: "emailSurface data = [s]" "vector s = ''Email Provider''"
    using mx assms(1) by (simp add: emailSurface_def field_of_def vector_surface)
  then have sc: "riskScore s = 90" using emailSurface_unprotected [OF assms] by simp
  have mem: "s \<in> set ?cs" using s(1) by (simp add: candidateSurfaces_def)
  have len: "length ?cs \<le> Suc 5"
    using candidate_lengths [of g m1 m2 data] by (simp add: candidateSurfaces_def)
  have low: "\<exists>y \<in> set ?cs. - riskScore s < - riskScore y" if "length ?cs = Suc 5"
  proof -
    from that candidate_lengths [of g m1 m2 data] have "length (webSurface data) = 1"
      by (simp add: candidateSurfaces_def)
    then obtain y where y: "webSurface data = [y]"
      by (cases "webSurface data") auto
    then have "riskScore y = 35" using webSurface_score [of y data] by simp
    moreover have "y \<in> set ?cs" using y by (simp add: candidateSurfaces_def)
    ultimately show ?thesis using sc by force
  qed
  have "s \<in> set (take 5 (sort_key (\<lambda>s. - riskScore s) ?cs))"
    by (rule take_sort_key_keeps [OF mem len low])
  then show "\<exists>s \<in> set (extractTop5AttackSurfaces g m1 m2 data rs). vector s = ''Email Provider''"
    using s(2) by (auto simp add: extractTop5AttackSurfaces_def sortByRiskScore_def)
qed

text \<open>Claim C5 on a self-hosted mail server without SPF and DMARC.\<close>

theorem unprotected_email_witness:
  "email (bare\<lparr>email := Some selfHostedMail\<rparr>) = Some selfHostedMail
   \<and> \<not> truthy (spf_record selfHostedMail) \<and> \<not> truthy (dmarc_record selfHostedMail)
   \<and> (\<exists>x \<in> set (calculateInfrastructureRisks (\<lambda>s. None) 0 0 (bare\<lparr>email := Some selfHostedMail\<rparr>)).
         category x = ''Email Security'' \<and> 45 \<le> score x)
   \<and> (\<exists>s \<in> set (extractTop5AttackSurfaces (\<lambda>s. None) 0 0 (bare\<lparr>email := Some selfHostedMail\<rparr>) []).
         vector s = ''Email Provider'' \<and> riskSeverity s = Critical)"
proof -
  have a: "email (bare\<lparr>email := Some selfHostedMail\<rparr>) = Some selfHostedMail" by simp
  have b: "\<not> truthy (spf_record selfHostedMail)" "\<not> truthy (dmarc_record selfHostedMail)"
    "truthy (mx_provider selfHostedMail)"
    by (simp_all add: selfHostedMail_def truthy_def)
  show ?thesis
    using unprotected_email_is_critical [OF a b(1,2), of "\<lambda>s. None" 0 0 0 0 "[]"] a b
    by blast
qed

text \<open>The email section the handler builds always names a provider.\<close>

lemma detectEmailProvider_nonempty: "detectEmailProvider x \<noteq> []"
  by (simp add: detectEmailProvider_def Let_def)

lemma email_section_has_provider:
  "emailSection dnsData = Some e \<Longrightarrow> truthy (mx_provider e)"
  by (cases "res_mx_records dnsData")
     (auto simp add: emailSection_def truthy_def detectEmailProvider_nonempty)

section \<open>C6: no A record, no hosting section\<close>

text \<open>
  Claim C6: for every request that passes the validation, when DNS resolution returns
  zero A records, the result has no \<^verbatim>\<open>hosting\<close> section and the handler makes no
  request to the IP lookup.
\<close>

theorem no_A_record_no_hosting:
  assumes "d \<noteq> []" and "res_a_records (fst (resolveDNS env (cleanDomain d))) = []"
  shows "(\<exists>r. resultOf (fst (POST env (Body (StringValue d)))) = Some r \<and> hosting r = None)
         \<and> (\<forall>u. IpWhoisRequest u \<notin> set (snd (POST env (Body (StringValue d)))))"
proof -
  let ?c = "cleanDomain d"
  have h: "hostingSection env (fst (resolveDNS env ?c)) = (None, [])"
    using assms(2) by (simp add: hostingSection_def)
  have "hosting (noteScored (fst (gather env ?c))) = None"
    by (simp add: noteScored_sections gather_sections h)
  moreover have "\<forall>u. IpWhoisRequest u \<notin> set (snd (gather env ?c))"
    by (simp add: gather_lookups h adapter_lookups split: option.splits)
  ultimately show ?thesis
    using assms(1) by (simp add: POST_valid POST_lookups resultOf_def)
qed

text \<open>Claim C6 where the A query answers with an empty list.\<close>

theorem no_A_record_no_hosting_witness:
  "res_a_records (fst (resolveDNS noAddress (cleanDomain ''example.com''))) = []
   \<and> (\<exists>r. resultOf (fst (POST noAddress (Body (StringValue ''example.com'')))) = Some r
          \<and> hosting r = None)
   \<and> (\<forall>u. IpWhoisRequest u \<notin> set (snd (POST noAddress (Body (StringValue ''example.com'')))))"
proof -
  have a: "res_a_records (fst (resolveDNS noAddress (cleanDomain ''example.com''))) = []"
    by (simp add: resolveDNS_def noAddress_def offline_def orEmpty_def)
  have b: "''example.com'' \<noteq> []" by simp
  show ?thesis
    using no_A_record_no_hosting [OF b a] a by blast
qed

section \<open>C7: the WHOIS parser\<close>

lemma indexOf_None: "indexOf s c = None \<longleftrightarrow> c \<notin> set s"
  by (induction s) (auto split: option.splits)

lemma indexOf_in_set: "indexOf s c = Some i \<Longrightarrow> c \<in> set s"
  by (induction s arbitrary: i) (auto split: option.splits if_splits)

text \<open>\<^verbatim>\<open>indexOf\<close> finds the first colon: the text before it has none.\<close>

lemma indexOf_Some:
  "indexOf s c = Some i \<Longrightarrow>
     take i s = takeWhile (\<lambda>x. x \<noteq> c) s
     \<and> drop (i + 1) s = drop 1 (dropWhile (\<lambda>x. x \<noteq> c) s)"
  by (induction s arbitrary: i) (auto split: option.splits if_splits)

lemma applyRules_append: "applyRules (xs @ ys) r = applyRules ys (applyRules xs r)"
  by (induction xs arbitrary: r) auto

lemma applyRules_untouched:
  "list_all (\<lambda>rule. \<forall>x. sel (snd rule x) = sel x) rules \<Longrightarrow> sel (applyRules rules r) = sel r"
  by (induction rules arbitrary: r) auto

lemma applyRules_none: "list_all (\<lambda>rule. \<not> fst rule) rules \<Longrightarrow> applyRules rules r = r"
  by (induction rules arbitrary: r) auto

text \<open>A property that only the rule at position \<open>i\<close> assigns.\<close>

lemma applyRules_at:
  assumes "i < length rules"
    and "list_all (\<lambda>rule. \<forall>x. sel (snd rule x) = sel x) (take i rules)"
    and "list_all (\<lambda>rule. \<forall>x. sel (snd rule x) = sel x) (drop (Suc i) rules)"
    and "\<And>x. sel (snd (rules ! i) x) = upd (sel x)"
  shows "sel (applyRules rules r) = (if fst (rules ! i) then upd (sel r) else sel r)"
proof -
  have "rules = take i rules @ [rules ! i] @ drop (Suc i) rules"
    using assms(1) by (simp add: id_take_nth_drop)
  then have "applyRules rules r =
      applyRules (drop (Suc i) rules) (applyRules [rules ! i] (applyRules (take i rules) r))"
    by (metis applyRules_append)
  then show ?thesis
    using applyRules_untouched [OF assms(3)] applyRules_untouched [OF assms(2), of r] assms(4)
    by (cases "rules ! i") simp
qed

lemma registrant_email_rule:
  "registrant_email (applyRules (whoisRules k v) r) =
     (if str_includes k ''registrant'' \<and> str_includes k ''email'' then Some v
      else registrant_email r)"
  by (subst applyRules_at [where i = 16 and upd = "\<lambda>old. Some v"])
     (simp_all add: whoisRules_def)

lemma nameservers_rule:
  "nameservers (applyRules (whoisRules k v) r) =
     (if str_includes k ''name server'' \<or> str_includes k ''nameserver''
      then Some (list_or_empty (nameservers r) @ [v])
      else nameservers r)"
  by (subst applyRules_at [where i = 26 and upd = "\<lambda>old. Some (list_or_empty old @ [v])"])
     (simp_all add: whoisRules_def)

lemma status_rule:
  "status (applyRules (whoisRules k v) r) =
     (if str_includes k ''status'' then Some (list_or_empty (status r) @ [v]) else status r)"
  by (subst applyRules_at [where i = 27 and upd = "\<lambda>old. Some (list_or_empty old @ [v])"])
     (simp_all add: whoisRules_def)

text \<open>The loop body in the words of the specification: the guards of the code are the
  ignored lines, and the key and value it computes are those of the split on the first
  colon.\<close>

lemma parseLine_cases:
  "parseLine r line =
     (if ignored line then r
      else applyRules (whoisRules (spec_key line) (spec_value line)) r)"
proof (cases "indexOf (trim line) (CHR '':'')")
  case None
  then have "CHR '':'' \<notin> set (trim line)" by (simp add: indexOf_None)
  with None show ?thesis
    by (simp add: parseLine_def ignored_def claimed_ignored_def Let_def)
next
  case (Some i)
  then have mem: "CHR '':'' \<in> set (trim line)" by (rule indexOf_in_set)
  from indexOf_Some [OF Some]
  have kv: "lineKey (trim line) i = spec_key line" "lineValue (trim line) i = spec_value line"
    by (simp_all add: lineKey_def lineValue_def spec_key_def spec_value_def)
  show ?thesis
    using Some mem
    by (simp add: parseLine_def ignored_def claimed_ignored_def Let_def kv)
qed

lemma foldl_ignored: "list_all ignored ls \<Longrightarrow> foldl parseLine r ls = r"
  by (induction ls arbitrary: r) (auto simp add: parseLine_cases)

text \<open>The parser is the loop over the lines, also for the empty text.\<close>

lemma parse_is_fold: "parseWhoisResponse text = foldl parseLine whois_empty (linesOf text)"
  by (simp add: parseWhoisResponse_def linesOf_def parseLine_def trim_def)

lemma fold_without_dropped:
  "foldl parseLine r ls = foldl parseLine r (filter (\<lambda>l. \<not> dropped l) ls)"
  by (induction ls arbitrary: r)
     (auto simp add: dropped_def unmatched_def parseLine_cases applyRules_none)

text \<open>The three properties of the claim after the loop over any lines.\<close>

lemma status_fold:
  "status (foldl parseLine r ls) =
     (if filter addsStatus ls = [] then status r
      else Some (list_or_empty (status r) @ map spec_value (filter addsStatus ls)))"
  by (induction ls arbitrary: r)
     (simp_all add: parseLine_cases status_rule addsStatus_def list_or_empty_def)

lemma nameservers_fold:
  "nameservers (foldl parseLine r ls) =
     (if filter addsNameserver ls = [] then nameservers r
      else Some (list_or_empty (nameservers r) @ map spec_value (filter addsNameserver ls)))"
  by (induction ls arbitrary: r)
     (simp_all add: parseLine_cases nameservers_rule addsNameserver_def list_or_empty_def)

lemma registrant_email_fold:
  "registrant_email (foldl parseLine r ls) =
     (if filter setsRegistrantEmail ls = [] then registrant_email r
      else Some (spec_value (last (filter setsRegistrantEmail ls))))"
  by (induction ls arbitrary: r)
     (simp_all add: parseLine_cases registrant_email_rule setsRegistrantEmail_def)

text \<open>
  Claim C7, as stated, routes every line that is not blank, does not begin with \<^verbatim>\<open>%\<close> or
  \<^verbatim>\<open>>\<close> and has a colon. The line \<^verbatim>\<open>Domain Status:\<close> is such a line and its key contains
  \<^verbatim>\<open>status\<close>, but its value is empty, the code skips it (\<^verbatim>\<open>if (!value) continue\<close>), and no
  \<^verbatim>\<open>status\<close> list is made.
\<close>

theorem whois_empty_value_dropped:
  "\<not> claimed_ignored ''Domain Status:''
   \<and> str_includes (spec_key ''Domain Status:'') ''status''
   \<and> parseWhoisResponse ''Domain Status:'' = whois_empty
   \<and> status (parseWhoisResponse ''Domain Status:'') = None"
  by (simp add: claimed_ignored_def spec_key_def parseWhoisResponse_def parseLine_def
      lineValue_def whois_empty_def string_eval)

text \<open>
  Claim C7, amended. The parser is a total function: the model has no error value,
  because no statement of the source can throw (every operation is a string operation
  on a string, and \<^verbatim>\<open>push\<close> is only called on a property the same statement has just
  made an array). Blank lines, lines that begin with \<^verbatim>\<open>%\<close> or \<^verbatim>\<open>>\<close>, lines without a
  colon and lines with nothing after the first colon contribute nothing. Every other
  line is split on its first colon and its lower-cased key is routed by substring
  tests: a key with \<^verbatim>\<open>registrant\<close> and \<^verbatim>\<open>email\<close> sets \<^verbatim>\<open>registrant_email\<close>, a key with
  \<^verbatim>\<open>name server\<close> or \<^verbatim>\<open>nameserver\<close> appends to \<^verbatim>\<open>nameservers\<close>, a key with \<^verbatim>\<open>status\<close>
  appends to \<^verbatim>\<open>status\<close>, and a line that matches no test changes nothing. A text of
  ignored lines only parses to the empty record.

  The first seven parts state this of one pass of the loop, from any record. The last
  four state it of the parser on any text: the result is the loop over the lines that
  are not dropped, \<^verbatim>\<open>registrant_email\<close> is the value of the last line routed to it, and
  \<^verbatim>\<open>nameservers\<close> and \<^verbatim>\<open>status\<close> are the values of the lines routed to them, in the order
  of the text, each property absent when no line is routed to it.
\<close>

theorem whois_line_routing:
  "(ignored line \<longrightarrow> parseLine r line = r)
   \<and> (\<not> ignored line \<longrightarrow>
        parseLine r line = applyRules (whoisRules (spec_key line) (spec_value line)) r)
   \<and> (\<not> ignored line \<and> str_includes (spec_key line) ''registrant''
        \<and> str_includes (spec_key line) ''email'' \<longrightarrow>
          registrant_email (parseLine r line) = Some (spec_value line))
   \<and> (\<not> ignored line
        \<and> (str_includes (spec_key line) ''name server''
             \<or> str_includes (spec_key line) ''nameserver'') \<longrightarrow>
          nameservers (parseLine r line)
            = Some (list_or_empty (nameservers r) @ [spec_value line]))
   \<and> (\<not> ignored line \<and> str_includes (spec_key line) ''status'' \<longrightarrow>
          status (parseLine r line) = Some (list_or_empty (status r) @ [spec_value line]))
   \<and> (\<not> ignored line
        \<and> list_all (\<lambda>rule. \<not> fst rule) (whoisRules (spec_key line) (spec_value line)) \<longrightarrow>
          parseLine r line = r)
   \<and> (list_all ignored (splitOn (CHR 0x0A) text) \<longrightarrow> parseWhoisResponse text = whois_empty)
   \<and> parseWhoisResponse text
       = foldl parseLine whois_empty (filter (\<lambda>l. \<not> dropped l) (linesOf text))
   \<and> registrant_email (parseWhoisResponse text)
       = lastValue setsRegistrantEmail (linesOf text)
   \<and> nameservers (parseWhoisResponse text) = collected addsNameserver (linesOf text)
   \<and> status (parseWhoisResponse text) = collected addsStatus (linesOf text)"
proof -
  have line: "(ignored line \<longrightarrow> parseLine r line = r)
   \<and> (\<not> ignored line \<longrightarrow>
        parseLine r line = applyRules (whoisRules (spec_key line) (spec_value line)) r)
   \<and> (\<not> ignored line \<and> str_includes (spec_key line) ''registrant''
        \<and> str_includes (spec_key line) ''email'' \<longrightarrow>
          registrant_email (parseLine r line) = Some (spec_value line))
   \<and> (\<not> ignored line
        \<and> (str_includes (spec_key line) ''name server''
             \<or> str_includes (spec_key line) ''nameserver'') \<longrightarrow>
          nameservers (parseLine r line)
            = Some (list_or_empty (nameservers r) @ [spec_value line]))
   \<and> (\<not> ignored line \<and> str_includes (spec_key line) ''status'' \<longrightarrow>
          status (parseLine r line) = Some (list_or_empty (status r) @ [spec_value line]))
   \<and> (\<not> ignored line
        \<and> list_all (\<lambda>rule. \<not> fst rule) (whoisRules (spec_key line) (spec_value line)) \<longrightarrow>
          parseLine r line = r)
   \<and> (list_all ignored (splitOn (CHR 0x0A) text) \<longrightarrow> parseWhoisResponse text = whois_empty)"
    by (simp add: parseLine_cases registrant_email_rule nameservers_rule status_rule
        applyRules_none parseWhoisResponse_def foldl_ignored)
  have whole: "parseWhoisResponse text
       = foldl parseLine whois_empty (filter (\<lambda>l. \<not> dropped l) (linesOf text))"
    using fold_without_dropped [of whois_empty "linesOf text"] by (simp add: parse_is_fold)
  have fields: "registrant_email (parseWhoisResponse text)
       = lastValue setsRegistrantEmail (linesOf text)"
    "nameservers (parseWhoisResponse text) = collected addsNameserver (linesOf text)"
    "status (parseWhoisResponse text) = collected addsStatus (linesOf text)"
    by (simp_all add: parse_is_fold registrant_email_fold nameservers_fold status_fold
        lastValue_def collected_def whois_empty_def list_or_empty_def)
  show ?thesis
    using line whole fields by blast
qed

text \<open>The amended claim C7 on a text of seven lines: the second status line is appended
  to the list the first one made, the status line without a value and the comment
  contribute nothing, and the line no test matches is dropped.\<close>

theorem whois_line_routing_witness:
  "status (parseWhoisResponse whoisSample) = Some [''ok'', ''locked'']
   \<and> registrant_email (parseWhoisResponse whoisSample) = Some ''a@b.example''
   \<and> nameservers (parseWhoisResponse whoisSample) = Some [''ns1.example.net'']
   \<and> domain_name (parseWhoisResponse whoisSample) = None
   \<and> ignored ''% terms of use'' \<and> ignored ''Domain Status:''
   \<and> \<not> ignored ''Sponsor: none'' \<and> dropped ''Sponsor: none''
   \<and> status (parseLine (parseWhoisResponse whoisSample) ''Status: held'')
       = Some [''ok'', ''locked'', ''held'']"
proof -
  have ls: "linesOf whoisSample =
      [''% terms of use'', statusLineCR, ''Registrant Email: a@b.example'', ''Sponsor: none'',
       ''Name Server: ns1.example.net'', ''Domain Status:'', ''Domain Status: locked'']"
    by (simp add: linesOf_def whoisSample_def statusLineCR_def)
  have i: "ignored ''% terms of use''" "\<not> ignored statusLineCR"
    "\<not> ignored ''Registrant Email: a@b.example''" "\<not> ignored ''Sponsor: none''"
    "\<not> ignored ''Name Server: ns1.example.net''" "ignored ''Domain Status:''"
    "\<not> ignored ''Domain Status: locked''" "\<not> ignored ''Status: held''"
    by (simp_all add: ignored_def claimed_ignored_def spec_value_def statusLineCR_def
        string_eval)
  have k: "spec_key statusLineCR = ''domain status''"
    "spec_key ''Registrant Email: a@b.example'' = ''registrant email''"
    "spec_key ''Sponsor: none'' = ''sponsor''"
    "spec_key ''Name Server: ns1.example.net'' = ''name server''"
    "spec_key ''Domain Status: locked'' = ''domain status''"
    "spec_key ''Status: held'' = ''status''"
    by (simp_all add: spec_key_def statusLineCR_def string_eval)
  have v: "spec_value statusLineCR = ''ok''"
    "spec_value ''Registrant Email: a@b.example'' = ''a@b.example''"
    "spec_value ''Sponsor: none'' = ''none''"
    "spec_value ''Name Server: ns1.example.net'' = ''ns1.example.net''"
    "spec_value ''Domain Status: locked'' = ''locked''"
    "spec_value ''Status: held'' = ''held''"
    by (simp_all add: spec_value_def statusLineCR_def string_eval)
  have st: "filter addsStatus (linesOf whoisSample) = [statusLineCR, ''Domain Status: locked'']"
    by (simp add: ls addsStatus_def i k startsWith_def)
  have ns: "filter addsNameserver (linesOf whoisSample) = [''Name Server: ns1.example.net'']"
    by (simp add: ls addsNameserver_def i k startsWith_def)
  have em: "filter setsRegistrantEmail (linesOf whoisSample)
      = [''Registrant Email: a@b.example'']"
    by (simp add: ls setsRegistrantEmail_def i k startsWith_def)
  have un: "dropped ''Sponsor: none''"
    by (simp add: dropped_def unmatched_def k v whoisRules_def startsWith_def)
  note t = whois_line_routing [of "''Status: held''" "parseWhoisResponse whoisSample" whoisSample]
  from t have c1: "status (parseWhoisResponse whoisSample)
      = collected addsStatus (linesOf whoisSample)"
    by blast
  from t have c2: "registrant_email (parseWhoisResponse whoisSample)
      = lastValue setsRegistrantEmail (linesOf whoisSample)"
    by blast
  from t have c3: "nameservers (parseWhoisResponse whoisSample)
      = collected addsNameserver (linesOf whoisSample)"
    by blast
  from t have c4: "parseWhoisResponse whoisSample
      = foldl parseLine whois_empty (filter (\<lambda>l. \<not> dropped l) (linesOf whoisSample))"
    by blast
  from t i(8) have c5: "str_includes (spec_key ''Status: held'') ''status'' \<Longrightarrow>
      status (parseLine (parseWhoisResponse whoisSample) ''Status: held'')
        = Some (list_or_empty (status (parseWhoisResponse whoisSample))
                  @ [spec_value ''Status: held''])"
    by blast
  have s1: "status (parseWhoisResponse whoisSample) = Some [''ok'', ''locked'']"
    by (simp add: c1 collected_def st v)
  have s2: "registrant_email (parseWhoisResponse whoisSample) = Some ''a@b.example''"
    by (simp add: c2 lastValue_def em v)
  have s3: "nameservers (parseWhoisResponse whoisSample) = Some [''ns1.example.net'']"
    by (simp add: c3 collected_def ns v)
  have "str_includes (spec_key ''Status: held'') ''status''"
    by (simp add: k startsWith_def)
  from c5 [OF this]
  have s4: "status (parseLine (parseWhoisResponse whoisSample) ''Status: held'')
       = Some [''ok'', ''locked'', ''held'']"
    by (simp add: s1 v list_or_empty_def)
  have keep: "filter (\<lambda>l. \<not> dropped l) (linesOf whoisSample)
      = [statusLineCR, ''Registrant Email: a@b.example'', ''Name Server: ns1.example.net'',
         ''Domain Status: locked'']"
    by (simp add: ls dropped_def unmatched_def i k v whoisRules_def startsWith_def)
  have "domain_name (foldl parseLine whois_empty
          (filter (\<lambda>l. \<not> dropped l) (linesOf whoisSample))) = None"
    by (simp add: keep parseLine_cases i k v whoisRules_def startsWith_def whois_empty_def)
  then have s5: "domain_name (parseWhoisResponse whoisSample) = None"
    by (simp add: c4)
  show ?thesis
    using s1 s2 s3 s4 s5 i(1,4,6) un by blast
qed

section \<open>C8: a warning for each adapter\<close>

text \<open>The warnings of a response depend on the WHOIS lookup alone.\<close>

lemma warnings_from_whois_only:
  "d \<noteq> [] \<Longrightarrow>
     map_option (\<lambda>r. warnings (metadata r)) (resultOf (fst (POST env (Body (StringValue d)))))
       = Some (if fst (getWhoisInfo env (cleanDomain d)) = whois_empty
               then [''WHOIS data unavailable''] else [])"
  by (simp add: POST_valid resultOf_def noteScored_sections gather_sections whoisWarnings_def)

text \<open>
  Claim C8 says that \<^verbatim>\<open>metadata.warnings\<close> has a note for each adapter that returned
  nothing. The code writes a note on the WHOIS path only. Where WHOIS answers and the
  DNS queries and the HTTP probe fail, the result has neither a \<^verbatim>\<open>dns\<close> nor a
  \<^verbatim>\<open>web_server\<close> section and \<^verbatim>\<open>warnings\<close> is empty.
\<close>

theorem failed_probe_leaves_no_warning:
  "fetchHead whoisOnly ''https://example.com'' = None
   \<and> resolve4 whoisOnly ''example.com'' = None
   \<and> map_option web_server
        (resultOf (fst (POST whoisOnly (Body (StringValue ''example.com''))))) = Some None
   \<and> map_option dns
        (resultOf (fst (POST whoisOnly (Body (StringValue ''example.com''))))) = Some None
   \<and> map_option (\<lambda>r. warnings (metadata r))
        (resultOf (fst (POST whoisOnly (Body (StringValue ''example.com''))))) = Some []"
proof -
  have s: "getWhoisServer ''example.com'' = Some ''whois.verisign-grs.com''"
    by (simp add: getWhoisServer_def WHOIS_SERVERS_def toLowerCase_def isUpperChar_def)
  have w: "registrar (fst (getWhoisInfo whoisOnly ''example.com'')) = Some ''Example Registrar''"
    by (simp add: getWhoisInfo_def s whoisOnly_def offline_def parseWhoisResponse_def
        parseLine_def lineKey_def lineValue_def whoisRules_def whois_empty_def string_eval)
  then have ne: "fst (getWhoisInfo whoisOnly ''example.com'') \<noteq> whois_empty"
    by (auto simp add: whois_empty_def)
  have d: "fst (resolveDNS whoisOnly ''example.com'') =
      \<lparr>res_nameservers = [], res_a_records = [], res_aaaa_records = [], res_mx_records = [],
       res_txt_records = [], res_soa_record = None, res_dmarc_txt = None\<rparr>"
    by (simp add: resolveDNS_def whoisOnly_def offline_def orEmpty_def dmarcOf_def)
  have h: "fst (getHttpHeaders whoisOnly ''example.com'') = headers_empty"
    by (simp add: getHttpHeaders_def whoisOnly_def offline_def)
  show ?thesis
    using ne
    by (simp add: POST_valid resultOf_def noteScored_sections gather_sections
        cleanDomain_example d h dnsSection_def webSection_def headers_empty_def truthy_def
        whoisWarnings_def)
       (simp add: whoisOnly_def offline_def)
qed

section \<open>C9: the Registrar candidate\<close>

text \<open>The age branch never lowers the score or the weight.\<close>

lemma registrarAge_keeps_score:
  "registrarAge g now c (sev, sc, w) = (sev', sc', w') \<Longrightarrow> sc \<le> sc' \<and> w \<le> w'"
  by (auto simp add: registrarAge_def split: option.splits if_splits)

text \<open>
  Claim C9 says that the Registrar candidate is raised to critical/95/0.95 when the
  domain expires in fewer than 30 days and raised further when the domain is younger
  than a year. The code keeps the score and the weight with \<^verbatim>\<open>Math.max\<close> but assigns
  \<^verbatim>\<open>riskSev = "high"\<close> without a test: for a registration that expires in ten days and is
  four months old, the surface has the score 95, the weight 0.95 and the severity
  high, not critical.
\<close>

theorem registrar_severity_lowered_by_age:
  "map (\<lambda>s. (vector s, riskSeverity s, riskScore s, surface_weight s))
     (extractTop5AttackSurfaces sampleTime 1793577600000 1793577600000 expiringNewDomain [])
   = [(''Registrar'', High, 95, 95 / 100)]"
  by (simp add: surface_eval sampleTime_def expiringNewDomain_def bare_def whois_empty_def)

section \<open>C10: no A record, no DNS section\<close>

lemma dnsRisk_findings:
  assumes "dns_a_records sec = Some a" "a \<noteq> []"
  shows "''No A records found - site may be offline/misconfigured''
           \<notin> set (findings (dnsRisk sec))"
proof -
  have n: "\<And>n s t. CHR ''N'' # t \<noteq> show_nat n @ s"
    using show_nat_not_N by metis
  show ?thesis
    using assms
    by (cases "dns_nameservers sec")
       (simp_all add: dnsRisk_def findings_riskEntry contribute_findings unchanged_def n)
qed

lemma dnsSection_a_records:
  "dnsSection dd = Some sec \<Longrightarrow>
     dns_a_records sec = Some (res_a_records dd) \<and> res_a_records dd \<noteq> []"
  by (auto simp add: dnsSection_def split: if_splits)

text \<open>
  Claim C10: when DNS resolution returns zero A records, the result has no \<^verbatim>\<open>dns\<close>
  section, whatever the name server, MX, TXT and SOA queries returned, and the risk
  scores have no DNS Security category. In every response of the handler, a DNS
  Security category never carries the finding of the rule for absent A records.
\<close>

theorem no_A_record_no_dns_section:
  "(d \<noteq> [] \<and> res_a_records (fst (resolveDNS env (cleanDomain d))) = [] \<longrightarrow>
      (\<exists>r rs ss. fst (POST env (Body (StringValue d))) = Success r rs ss
          \<and> dns r = None \<and> (\<forall>x \<in> set rs. category x \<noteq> ''DNS Security'')))
   \<and> (\<forall>r rs ss. fst (POST env req) = Success r rs ss \<longrightarrow>
          (\<forall>x \<in> set rs. category x = ''DNS Security'' \<longrightarrow>
             ''No A records found - site may be offline/misconfigured'' \<notin> set (findings x)))"
proof (intro conjI impI allI ballI)
  assume a: "d \<noteq> [] \<and> res_a_records (fst (resolveDNS env (cleanDomain d))) = []"
  let ?g = "fst (gather env (cleanDomain d))"
  have nodns: "dns ?g = None" using a by (simp add: gather_sections dnsSection_def)
  have "\<forall>x \<in> set (calculateInfrastructureRisks (dateTime env) (nowRiskExpiry env)
                     (nowRiskAge env) ?g).
          category x \<noteq> ''DNS Security''"
    using nodns dns_risk_entries by fastforce
  then show "\<exists>r rs ss. fst (POST env (Body (StringValue d))) = Success r rs ss
          \<and> dns r = None \<and> (\<forall>x \<in> set rs. category x \<noteq> ''DNS Security'')"
    using a nodns by (simp add: POST_valid noteScored_sections)
next
  fix r rs ss x
  assume s: "fst (POST env req) = Success r rs ss" and x: "x \<in> set rs"
    and c: "category x = ''DNS Security''"
  from s obtain d where req: "req = Body (StringValue d)" and d: "d \<noteq> []"
    by (auto simp add: POST_def split: request.splits body_domain.splits if_splits)
  let ?g = "fst (gather env (cleanDomain d))"
  from s req d
  have rs: "rs = calculateInfrastructureRisks (dateTime env) (nowRiskExpiry env)
                   (nowRiskAge env) ?g"
    by (simp add: POST_valid)
  with x c obtain sec where sec: "dns ?g = Some sec" "x = dnsRisk sec"
    using dns_risk_entries by blast
  then have "dnsSection (fst (resolveDNS env (cleanDomain d))) = Some sec"
    by (simp add: gather_sections)
  then have "dns_a_records sec = Some (res_a_records (fst (resolveDNS env (cleanDomain d))))"
    "res_a_records (fst (resolveDNS env (cleanDomain d))) \<noteq> []"
    using dnsSection_a_records by blast+
  then show "''No A records found - site may be offline/misconfigured'' \<notin> set (findings x)"
    using sec(2) dnsRisk_findings by blast
qed

text \<open>Claim C10 where the name server, MX, TXT and SOA queries answer and the A query
  returns an empty list: only the Email Security category is scored.\<close>

theorem no_A_record_no_dns_section_witness:
  "res_a_records (fst (resolveDNS noAddress (cleanDomain ''example.com''))) = []
   \<and> res_nameservers (fst (resolveDNS noAddress (cleanDomain ''example.com'')))
       = [''ns1.example.net'', ''ns2.example.net'']
   \<and> (\<exists>r rs ss. fst (POST noAddress (Body (StringValue ''example.com''))) = Success r rs ss
          \<and> dns r = None \<and> (\<forall>x \<in> set rs. category x \<noteq> ''DNS Security''))"
proof -
  have a: "res_a_records (fst (resolveDNS noAddress (cleanDomain ''example.com''))) = []"
    "res_nameservers (fst (resolveDNS noAddress (cleanDomain ''example.com'')))
       = [''ns1.example.net'', ''ns2.example.net'']"
    by (simp_all add: resolveDNS_def noAddress_def offline_def orEmpty_def)
  have b: "''example.com'' \<noteq> []" by simp
  show ?thesis
    using no_A_record_no_dns_section [of "''example.com''" noAddress] a b by blast
qed

end
